theory Spec2Isabelle
  imports Complex_Main "HOL-Library.Word"
begin

section \<open>JSON documents (the ArduinoJson v6 interface used by both sketches)\<close>

text \<open>
  Both sketches build and read their payloads through ArduinoJson documents. A document is
  modelled by the value it holds. Numbers read from text are kept as the exact decimal the
  text denotes (a rational). The conversion of such a decimal to a C \<open>float\<close> is a
  parameter \<open>to_float\<close> of the gateway model; in the scenarios it is \<open>binary32\<close>.
\<close>

datatype DeserializationError = EmptyInput | IncompleteInput | InvalidInput | NoMemory | TooDeep

datatype JsonVariant =
    JNull
  | JBool bool
  | JInt int
  | JFloat rat
  | JString string
  | JArray "JsonVariant list"
  | JObject "(string \<times> JsonVariant) list"

text \<open>\<open>doc["key"]\<close>: the member of an object, the null variant for a missing key or for a
  document that is not an object.\<close>

fun getMember :: "JsonVariant \<Rightarrow> string \<Rightarrow> JsonVariant" where
  "getMember (JObject kvs) k = (case map_of kvs k of Some v \<Rightarrow> v | None \<Rightarrow> JNull)"
| "getMember _ k = JNull"

subsection \<open>Reading a number from text\<close>

definition isdigit :: "char \<Rightarrow> bool" where
  "isdigit c = (48 \<le> (of_char c :: nat) \<and> (of_char c :: nat) \<le> 57)"

definition digit_val :: "char \<Rightarrow> nat" where
  "digit_val c = of_char c - 48"

definition digits :: "string \<Rightarrow> nat" where
  "digits s = foldl (\<lambda>a c. 10 * a + digit_val c) 0 s"

fun split_sign :: "string \<Rightarrow> bool \<times> string" where
  "split_sign [] = (False, [])"
| "split_sign (c # r) =
     (if c = CHR ''-'' then (True, r) else if c = CHR ''+'' then (False, r) else (False, c # r))"

text \<open>\<open>parseNumber\<close>: sign, integral digits, optional fraction, optional exponent. Text
  without fraction and exponent is an integer, anything else a float; text that is not a
  number gives the null variant.\<close>

definition parseNumber :: "string \<Rightarrow> JsonVariant" where
  "parseNumber s =
     (let (neg, s1) = split_sign s;
          ip = takeWhile isdigit s1;
          r1 = dropWhile isdigit s1;
          is_frac = (r1 \<noteq> [] \<and> hd r1 = CHR ''.'');
          fp = (if is_frac then takeWhile isdigit (tl r1) else []);
          r2 = (if is_frac then dropWhile isdigit (tl r1) else r1);
          is_exp = (r2 \<noteq> [] \<and> (hd r2 = CHR ''e'' \<or> hd r2 = CHR ''E''));
          (eneg, e1) = (if is_exp then split_sign (tl r2) else (False, []));
          ok = (ip \<noteq> [] \<and> (if is_frac then fp \<noteq> [] else True) \<and>
                (if is_exp then e1 \<noteq> [] \<and> list_all isdigit e1 else r2 = []));
          mant = (of_nat (digits ip) :: rat) + of_nat (digits fp) / 10 ^ length fp;
          mag = (if eneg then mant / 10 ^ digits e1 else mant * 10 ^ digits e1)
      in if \<not> ok then JNull
         else if is_frac \<or> is_exp then JFloat (if neg then - mag else mag)
         else JInt (if neg then - int (digits ip) else int (digits ip)))"

subsection \<open>Implicit conversions of a variant\<close>

text \<open>\<open>const char* p = doc["k"]\<close>: the string, or the null pointer for anything else.\<close>

fun as_cstr :: "JsonVariant \<Rightarrow> string option" where
  "as_cstr (JString s) = Some s"
| "as_cstr _ = None"

text \<open>\<open>float x = doc["k"]\<close>: numbers convert, booleans are 1 or 0, strings are read as
  numbers, everything else (a missing member included) is 0.\<close>

fun as_float :: "(rat \<Rightarrow> 'f) \<Rightarrow> JsonVariant \<Rightarrow> 'f" where
  "as_float to_float (JFloat q) = to_float q"
| "as_float to_float (JInt n) = to_float (of_int n)"
| "as_float to_float (JBool b) = to_float (if b then 1 else 0)"
| "as_float to_float (JString s) =
     (case parseNumber s of
        JFloat q \<Rightarrow> to_float q
      | JInt n \<Rightarrow> to_float (of_int n)
      | _ \<Rightarrow> to_float 0)"
| "as_float to_float _ = to_float 0"

text \<open>\<open>int n = doc["k"]\<close>: a 32-bit \<open>int\<close>; a number outside its range converts to 0, a
  float inside the range is truncated towards zero.\<close>

definition INT_MIN :: int where "INT_MIN = - (2 ^ 31)"
definition INT_MAX :: int where "INT_MAX = 2 ^ 31 - 1"

definition int_of_JInt :: "int \<Rightarrow> int" where
  "int_of_JInt n = (if INT_MIN \<le> n \<and> n \<le> INT_MAX then n else 0)"

definition int_of_JFloat :: "rat \<Rightarrow> int" where
  "int_of_JFloat q =
     (if of_int INT_MIN \<le> q \<and> q \<le> of_int INT_MAX
      then (if 0 \<le> q then \<lfloor>q\<rfloor> else \<lceil>q\<rceil>) else 0)"

fun as_int :: "JsonVariant \<Rightarrow> int" where
  "as_int (JInt n) = int_of_JInt n"
| "as_int (JFloat q) = int_of_JFloat q"
| "as_int (JBool b) = (if b then 1 else 0)"
| "as_int (JString s) =
     (case parseNumber s of
        JFloat q \<Rightarrow> int_of_JFloat q
      | JInt n \<Rightarrow> int_of_JInt n
      | _ \<Rightarrow> 0)"
| "as_int _ = 0"

subsection \<open>The C type \<open>float\<close>\<close>

text \<open>
  A \<open>float\<close> of the ESP32 is an IEEE binary32 value: a finite value is a rational
  \<open>m * 2 ^ e\<close> with \<open>|m| < 2 ^ 24\<close> and \<open>- 149 \<le> e \<le> 104\<close>; beyond the largest of them
  there is infinity, with its sign (\<open>True\<close> for the negative one). The sign of zero is not
  kept. \<open>binary32\<close> converts a decimal to the nearest such value, ties to the even
  mantissa; it is the conversion used in the scenarios, where \<open>to_float\<close> is concrete.
\<close>

datatype float32 = Finite rat | Infinite bool

definition pow2 :: "int \<Rightarrow> rat" where
  "pow2 e = (if 0 \<le> e then 2 ^ nat e else 1 / 2 ^ nat (- e))"

definition round_half_even :: "rat \<Rightarrow> int" where
  "round_half_even q =
     (let f = \<lfloor>q\<rfloor>; d = q - of_int f
      in if d < 1 / 2 then f
         else if 1 / 2 < d then f + 1
         else if even f then f else f + 1)"

text \<open>The exponent of the last mantissa bit for a magnitude \<open>a\<close>: the least \<open>e\<close> from
  \<open>- 149\<close> on with \<open>a < 2 ^ (e + 24)\<close>, at most 104.\<close>

function ulp_exponent :: "int \<Rightarrow> rat \<Rightarrow> int" where
  "ulp_exponent e a = (if e < 104 \<and> pow2 (e + 24) \<le> a then ulp_exponent (e + 1) a else e)"
  by pat_completeness auto
termination
  by (relation "measure (\<lambda>(e, a). nat (104 - e))") auto

declare ulp_exponent.simps [simp del]

definition binary32 :: "rat \<Rightarrow> float32" where
  "binary32 q =
     (let a = \<bar>q\<bar>;
          e = ulp_exponent (- 149) a;
          m = round_half_even (a / pow2 e)
      in if e = 104 \<and> 2 ^ 24 \<le> m then Infinite (q < 0)
         else Finite ((if q < 0 then - 1 else 1) * of_int m * pow2 e))"

section \<open>The gateway sketch\<close>

subsection \<open>Data\<close>

text \<open>The canonical payload: the seven members \<open>handleLoRaPacket\<close> stores in \<open>txDoc\<close>.
  \<open>millis()\<close> is an \<open>unsigned long\<close> of 32 bits, \<open>rssi\<close> and \<open>rpm\<close> are \<open>int\<close>.\<close>

record 'f CanonicalReading =
  machine_id :: string
  timestamp :: "32 word"
  temperature :: 'f
  vibration :: 'f
  rpm :: int
  rssi :: int
  snr :: 'f

text \<open>What the radio hands over for one packet: the bytes read with \<open>LoRa.read()\<close>,
  \<open>LoRa.packetRssi()\<close> and \<open>LoRa.packetSnr()\<close>.\<close>

record 'f radio_packet =
  payload :: string
  packetRssi :: int
  packetSnr :: 'f

text \<open>What the gateway does that is visible from outside: the two discards of
  \<open>handleLoRaPacket\<close>, a call of \<open>mqttClient.publish\<close> with its outcome, and a call of
  \<open>mqttClient.connect\<close> with its outcome.\<close>

datatype 'f gw_event =
    JsonParseError DeserializationError
  | MissingMachineId
  | Published string "'f CanonicalReading"
  | PublishFailed string "'f CanonicalReading"
  | MqttConnect bool

text \<open>The state of the sketch: the connection state of the MQTT client, the number of
  \<open>connect\<close> calls made so far, the time spent in \<open>delay\<close> (milliseconds), and the
  events so far. There is no buffer of readings anywhere in the sketch.\<close>

record 'f gateway =
  mqtt_connected :: bool
  connect_calls :: nat
  delayed_ms :: nat
  events :: "'f gw_event list"

text \<open>What the surroundings decide during one pass of \<open>loop()\<close>: whether
  \<open>mqttClient.loop()\<close> finds the connection gone, what \<open>LoRa.parsePacket()\<close> finds,
  what \<open>millis()\<close> reads, and whether the network write of a publish goes through.\<close>

record 'f gw_env =
  link_lost :: bool
  radio :: "'f radio_packet option"
  millis :: "32 word"
  write_ok :: bool

subsection \<open>Configuration and library calls\<close>

definition MQTT_TOPIC_PREFIX :: string where
  "MQTT_TOPIC_PREFIX = ''factory/''"

text \<open>\<open>snprintf(buf, n, "%s%s", a, b)\<close>: at most \<open>n - 1\<close> characters of the
  concatenation are stored (the last byte is the terminator).\<close>

definition snprintf_ss :: "nat \<Rightarrow> string \<Rightarrow> string \<Rightarrow> string" where
  "snprintf_ss n a b = take (n - 1) (a @ b)"

text \<open>\<open>mqttClient.publish\<close>: the client sends only while it is connected, and reports
  whether the message went out.\<close>

definition mqtt_publish :: "'f gw_env \<Rightarrow> 'f gateway \<Rightarrow> bool" where
  "mqtt_publish env s = (mqtt_connected s \<and> write_ok env)"

subsection \<open>\<open>handleLoRaPacket\<close>\<close>

definition emit :: "'f gw_event \<Rightarrow> 'f gateway \<Rightarrow> 'f gateway" where
  "emit e s = s\<lparr>events := events s @ [e]\<rparr>"

definition handleLoRaPacket ::
  "(rat \<Rightarrow> 'f) \<Rightarrow> (string \<Rightarrow> DeserializationError + JsonVariant) \<Rightarrow>
   'f gw_env \<Rightarrow> 'f radio_packet \<Rightarrow> 'f gateway \<Rightarrow> 'f gateway" where
  "handleLoRaPacket to_float deserializeJson env pkt s =
     (case deserializeJson (payload pkt) of
        Inl error \<Rightarrow> emit (JsonParseError error) s
      | Inr rxDoc \<Rightarrow>
          (let machineId = as_cstr (getMember rxDoc ''id'');
               temperature = as_float to_float (getMember rxDoc ''t'');
               vibration = as_float to_float (getMember rxDoc ''v'');
               rpm = as_int (getMember rxDoc ''r'')
           in case machineId of
                None \<Rightarrow> emit MissingMachineId s
              | Some mid \<Rightarrow>
                  (let txDoc = \<lparr>machine_id = mid,
                                timestamp = millis env div 1000,
                                temperature = temperature,
                                vibration = vibration,
                                rpm = rpm,
                                rssi = packetRssi pkt,
                                snr = packetSnr pkt\<rparr>;
                       topic = snprintf_ss 64 MQTT_TOPIC_PREFIX mid
                   in if mqtt_publish env s
                      then emit (Published topic txDoc) s
                      else emit (PublishFailed topic txDoc) s)))"

subsection \<open>\<open>reconnectMQTT\<close> and \<open>loop\<close>\<close>

text \<open>
  \<open>reconnectMQTT\<close> is a \<open>while\<close> loop around \<open>mqttClient.connect\<close> with
  \<open>delay(5000)\<close> after a failed attempt. The outcome of the \<open>k\<close>-th connect call of the
  whole run is \<open>connect k\<close>. The loop need not end, so its result is optional:
  \<open>None\<close> is the loop that never returns.
\<close>

partial_function (option) reconnectMQTT :: "(nat \<Rightarrow> bool) \<Rightarrow> 'f gateway \<Rightarrow> 'f gateway option" where
  "reconnectMQTT connect s =
     (if \<not> mqtt_connected s then
        (if connect (connect_calls s)
         then reconnectMQTT connect
                (emit (MqttConnect True)
                   (s\<lparr>mqtt_connected := True, connect_calls := Suc (connect_calls s)\<rparr>))
         else reconnectMQTT connect
                (emit (MqttConnect False)
                   (s\<lparr>connect_calls := Suc (connect_calls s),
                      delayed_ms := delayed_ms s + 5000\<rparr>)))
      else Some s)"

declare reconnectMQTT.simps [code]

text \<open>\<open>mqttClient.loop()\<close>: keeps the session alive; it is where the client may find the
  connection gone. The sketch ignores its result.\<close>

definition mqtt_loop :: "'f gw_env \<Rightarrow> 'f gateway \<Rightarrow> 'f gateway" where
  "mqtt_loop env s = (if link_lost env then s\<lparr>mqtt_connected := False\<rparr> else s)"

text \<open>One pass of \<open>loop()\<close>. \<open>LoRa.parsePacket()\<close> returns the size of the packet, 0 for
  none.\<close>

definition parsePacket :: "'f gw_env \<Rightarrow> nat" where
  "parsePacket env = (case radio env of None \<Rightarrow> 0 | Some pkt \<Rightarrow> length (payload pkt))"

definition loop ::
  "(rat \<Rightarrow> 'f) \<Rightarrow> (string \<Rightarrow> DeserializationError + JsonVariant) \<Rightarrow> (nat \<Rightarrow> bool) \<Rightarrow>
   'f gw_env \<Rightarrow> 'f gateway \<Rightarrow> 'f gateway option" where
  "loop to_float deserializeJson connect env s =
     (case (if \<not> mqtt_connected s then reconnectMQTT connect s else Some s) of
        None \<Rightarrow> None
      | Some s1 \<Rightarrow>
          (let s2 = mqtt_loop env s1;
               s3 = (case radio env of
                       None \<Rightarrow> s2
                     | Some pkt \<Rightarrow>
                         if parsePacket env \<noteq> 0
                         then handleLoRaPacket to_float deserializeJson env pkt s2
                         else s2)
           in Some (s3\<lparr>delayed_ms := delayed_ms s3 + 10\<rparr>)))"

text \<open>The events a pass added.\<close>

definition new_events :: "'f gateway \<Rightarrow> 'f gateway \<Rightarrow> 'f gw_event list" where
  "new_events s s' = drop (length (events s)) (events s')"

fun is_publish_call :: "'f gw_event \<Rightarrow> bool" where
  "is_publish_call (Published t c) = True"
| "is_publish_call (PublishFailed t c) = True"
| "is_publish_call _ = False"

section \<open>A reader for JSON text\<close>

text \<open>
  \<open>deserializeJson\<close> is a parameter of the gateway model, so the general theorems hold
  for every reader, whatever its limits on memory and nesting. For the concrete packets of
  the scenarios a reader of standard JSON text is defined here: objects, arrays, strings
  with the single-character escapes, numbers, \<open>true\<close>, \<open>false\<close>, \<open>null\<close>. A later
  member with the same key replaces the earlier one, and text after the first value is
  ignored.
\<close>

definition isspace :: "char \<Rightarrow> bool" where
  "isspace c = (c = CHR '' '' \<or> c = CHR 0x09 \<or> c = CHR 0x0A \<or> c = CHR 0x0D)"

definition skipSpaces :: "string \<Rightarrow> string" where
  "skipSpaces s = dropWhile isspace s"

definition canBeInNumber :: "char \<Rightarrow> bool" where
  "canBeInNumber c =
     (isdigit c \<or> c = CHR ''+'' \<or> c = CHR ''-'' \<or> c = CHR ''.'' \<or> c = CHR ''e'' \<or> c = CHR ''E'')"

definition unescape :: "char \<Rightarrow> char option" where
  "unescape e =
     (if e = CHR 0x22 \<or> e = CHR 0x5C \<or> e = CHR ''/'' then Some e
      else if e = CHR ''b'' then Some (CHR 0x08)
      else if e = CHR ''f'' then Some (CHR 0x0C)
      else if e = CHR ''n'' then Some (CHR 0x0A)
      else if e = CHR ''r'' then Some (CHR 0x0D)
      else if e = CHR ''t'' then Some (CHR 0x09)
      else None)"

fun setMember :: "string \<Rightarrow> JsonVariant \<Rightarrow> (string \<times> JsonVariant) list \<Rightarrow> (string \<times> JsonVariant) list" where
  "setMember k v [] = [(k, v)]"
| "setMember k v ((k', v') # kvs) =
     (if k = k' then (k, v) # kvs else (k', v') # setMember k v kvs)"

text \<open>The characters of a string after its opening quote, up to the closing quote.\<close>

fun read_string :: "string \<Rightarrow> string \<Rightarrow> DeserializationError + (string \<times> string)" where
  "read_string acc [] = Inl IncompleteInput"
| "read_string acc [c] = (if c = CHR 0x22 then Inr (acc, []) else Inl IncompleteInput)"
| "read_string acc (c # e # cs) =
     (if c = CHR 0x22 then Inr (acc, e # cs)
      else if c = CHR 0x5C then
        (case unescape e of
           None \<Rightarrow> Inl InvalidInput
         | Some ch \<Rightarrow> read_string (acc @ [ch]) cs)
      else read_string (acc @ [c]) (e # cs))"

definition read_literal :: "string \<Rightarrow> JsonVariant \<Rightarrow> string \<Rightarrow> DeserializationError + (JsonVariant \<times> string)" where
  "read_literal lit v s =
     (if take (length lit) s = lit then Inr (v, drop (length lit) s)
      else if length s < length lit \<and> take (length s) lit = s then Inl IncompleteInput
      else Inl InvalidInput)"

text \<open>The first argument bounds the number of nested calls; \<open>readJson\<close> starts with more
  than the text can use.\<close>

fun read_value :: "nat \<Rightarrow> string \<Rightarrow> DeserializationError + (JsonVariant \<times> string)"
  and read_members :: "nat \<Rightarrow> (string \<times> JsonVariant) list \<Rightarrow> string \<Rightarrow> DeserializationError + (JsonVariant \<times> string)"
  and read_elements :: "nat \<Rightarrow> JsonVariant list \<Rightarrow> string \<Rightarrow> DeserializationError + (JsonVariant \<times> string)"
where
  "read_value 0 s = Inl TooDeep"
| "read_value (Suc n) s =
     (case skipSpaces s of
        [] \<Rightarrow> Inl IncompleteInput
      | c # cs \<Rightarrow>
          if c = CHR ''{'' then
            (case skipSpaces cs of
               [] \<Rightarrow> Inl IncompleteInput
             | d # ds \<Rightarrow> if d = CHR ''}'' then Inr (JObject [], ds) else read_members n [] cs)
          else if c = CHR ''['' then
            (case skipSpaces cs of
               [] \<Rightarrow> Inl IncompleteInput
             | d # ds \<Rightarrow> if d = CHR '']'' then Inr (JArray [], ds) else read_elements n [] cs)
          else if c = CHR 0x22 then
            (case read_string [] cs of
               Inl e \<Rightarrow> Inl e
             | Inr (str, r) \<Rightarrow> Inr (JString str, r))
          else if c = CHR ''t'' then read_literal ''true'' (JBool True) (c # cs)
          else if c = CHR ''f'' then read_literal ''false'' (JBool False) (c # cs)
          else if c = CHR ''n'' then read_literal ''null'' JNull (c # cs)
          else if canBeInNumber c then
            (let v = parseNumber (takeWhile canBeInNumber (c # cs))
             in if v = JNull then Inl InvalidInput
                else Inr (v, dropWhile canBeInNumber (c # cs)))
          else Inl InvalidInput)"
| "read_members 0 acc s = Inl TooDeep"
| "read_members (Suc n) acc s =
     (case skipSpaces s of
        [] \<Rightarrow> Inl IncompleteInput
      | c # cs \<Rightarrow>
          if c \<noteq> CHR 0x22 then Inl InvalidInput
          else
            (case read_string [] cs of
               Inl e \<Rightarrow> Inl e
             | Inr (key, r) \<Rightarrow>
                 (case skipSpaces r of
                    [] \<Rightarrow> Inl IncompleteInput
                  | d # r2 \<Rightarrow>
                      if d \<noteq> CHR '':'' then Inl InvalidInput
                      else
                        (case read_value n r2 of
                           Inl e \<Rightarrow> Inl e
                         | Inr (v, r3) \<Rightarrow>
                             (case skipSpaces r3 of
                                [] \<Rightarrow> Inl IncompleteInput
                              | x # r4 \<Rightarrow>
                                  if x = CHR '','' then read_members n (setMember key v acc) r4
                                  else if x = CHR ''}'' then Inr (JObject (setMember key v acc), r4)
                                  else Inl InvalidInput)))))"
| "read_elements 0 acc s = Inl TooDeep"
| "read_elements (Suc n) acc s =
     (case read_value n s of
        Inl e \<Rightarrow> Inl e
      | Inr (v, r) \<Rightarrow>
          (case skipSpaces r of
             [] \<Rightarrow> Inl IncompleteInput
           | x # r2 \<Rightarrow>
               if x = CHR '','' then read_elements n (acc @ [v]) r2
               else if x = CHR '']'' then Inr (JArray (acc @ [v]), r2)
               else Inl InvalidInput))"

definition readJson :: "string \<Rightarrow> DeserializationError + JsonVariant" where
  "readJson s =
     (if skipSpaces s = [] then Inl EmptyInput
      else case read_value (Suc (length s)) s of
             Inl e \<Rightarrow> Inl e
           | Inr (v, r) \<Rightarrow> Inr v)"

section \<open>The node sketch\<close>

definition MACHINE_ID :: string where
  "MACHINE_ID = ''lathe_01''"

definition SLEEP_SECONDS :: nat where
  "SLEEP_SECONDS = 30"

text \<open>The compact document \<open>readAndTransmit\<close> builds: members \<open>id\<close>, \<open>t\<close>, \<open>v\<close>, \<open>r\<close>.\<close>

record 'f CompactReading =
  doc_id :: string
  doc_t :: 'f
  doc_v :: 'f
  doc_r :: int

text \<open>What the hardware decides during one boot: whether \<open>LoRa.begin\<close> succeeds, what the
  three sensor functions return, and what \<open>LoRa.endPacket\<close> returns.\<close>

record 'f node_env =
  lora_begin :: bool
  readTemperature :: 'f
  readVibration :: 'f
  readRPM :: int
  endPacket :: bool

datatype 'f node_event =
    LoRaBegin
  | LoRaConfigured
  | Delay nat
  | EspRestart
  | SensorsRead
  | LoRaSend "'f CompactReading" bool
  | DeepSleep nat

text \<open>How a boot ends: \<open>ESP.restart()\<close> and \<open>esp_deep_sleep_start()\<close> do not return.\<close>

datatype halt = Restarted | Asleep

text \<open>The functions of the sketch extend the list of events so far. \<open>setupLoRa\<close> also
  tells how the boot ended if it did not return.\<close>

definition setupLoRa :: "'f node_env \<Rightarrow> 'f node_event list \<Rightarrow> 'f node_event list \<times> halt option" where
  "setupLoRa env tr =
     (if \<not> lora_begin env
      then (tr @ [LoRaBegin, Delay 5000, EspRestart], Some Restarted)
      else (tr @ [LoRaBegin, LoRaConfigured], None))"

text \<open>\<open>readAndTransmit\<close>. The two roundings are floating-point expressions
  (\<open>round(temperature * 10) / 10.0\<close> and \<open>round(vibration * 1000) / 1000.0\<close>); they are
  the parameters \<open>round1\<close> and \<open>round3\<close>.\<close>

definition readAndTransmit ::
  "('f \<Rightarrow> 'f) \<Rightarrow> ('f \<Rightarrow> 'f) \<Rightarrow> 'f node_env \<Rightarrow> 'f node_event list \<Rightarrow> 'f node_event list" where
  "readAndTransmit round1 round3 env tr =
     (let temperature = readTemperature env;
          vibration = readVibration env;
          rpm = readRPM env;
          doc = \<lparr>doc_id = MACHINE_ID, doc_t = round1 temperature,
                 doc_v = round3 vibration, doc_r = rpm\<rparr>
      in tr @ [SensorsRead, LoRaSend doc (endPacket env), Delay 100])"

definition enterDeepSleep :: "'f node_event list \<Rightarrow> 'f node_event list" where
  "enterDeepSleep tr = tr @ [Delay 100, DeepSleep (SLEEP_SECONDS * 1000000)]"

text \<open>\<open>setup()\<close> of the node: one boot. It takes \<open>bootCount\<close> (kept across deep sleep) and
  returns its new value, the events of the boot and how the boot ended.\<close>

definition node_setup ::
  "('f \<Rightarrow> 'f) \<Rightarrow> ('f \<Rightarrow> 'f) \<Rightarrow> 'f node_env \<Rightarrow> 32 word \<Rightarrow> 32 word \<times> 'f node_event list \<times> halt" where
  "node_setup round1 round3 env bootCount =
     (let bootCount' = bootCount + 1
      in case setupLoRa env [Delay 1000] of
           (tr, Some h) \<Rightarrow> (bootCount', tr, h)
         | (tr, None) \<Rightarrow>
             (bootCount', enterDeepSleep (readAndTransmit round1 round3 env tr), Asleep))"

fun samples_or_sends :: "'f node_event \<Rightarrow> bool" where
  "samples_or_sends SensorsRead = True"
| "samples_or_sends (LoRaSend d ok) = True"
| "samples_or_sends _ = False"

section \<open>Concrete surroundings for the scenarios\<close>

definition never_connects :: "nat \<Rightarrow> bool" where
  "never_connects k = False"


text \<open>The first two connect calls fail, the third succeeds.\<close>

definition connects_third :: "nat \<Rightarrow> bool" where
  "connects_third k = (2 \<le> k)"

definition gateway_connected :: "float32 gateway" where
  "gateway_connected = \<lparr>mqtt_connected = True, connect_calls = 1, delayed_ms = 1000, events = []\<rparr>"

text \<open>The gateway when \<open>setup()\<close> has returned: not yet connected to the broker.\<close>

definition gateway_boot :: "float32 gateway" where
  "gateway_boot = \<lparr>mqtt_connected = False, connect_calls = 0, delayed_ms = 1000, events = []\<rparr>"

text \<open>The radio hands over the given bytes with rssi -45 and snr 9.5 (\<open>test_packet\<close>);
  the flag of \<open>packet_env\<close> says whether \<open>mqttClient.loop()\<close> finds the connection gone in this pass.\<close>

definition test_packet :: "string \<Rightarrow> float32 radio_packet" where
  "test_packet bytes = \<lparr>payload = bytes, packetRssi = - 45, packetSnr = Finite (19 / 2)\<rparr>"

definition packet_env :: "string \<Rightarrow> bool \<Rightarrow> float32 gw_env" where
  "packet_env bytes lost =
     \<lparr>link_lost = lost,
      radio = Some (test_packet bytes),
      millis = 12345678,
      write_ok = True\<rparr>"




definition lathe_bytes :: string where
  "lathe_bytes = ''{\"id\":\"lathe_01\",\"t\":67.3,\"v\":0.012,\"r\":3200}''"

definition no_id_bytes :: string where
  "no_id_bytes = ''{\"t\":67.3,\"v\":0.012,\"r\":3200}''"

definition empty_id_bytes :: string where
  "empty_id_bytes = ''{\"id\":\"\",\"t\":67.3,\"v\":0.012,\"r\":3200}''"

definition truncated_bytes :: string where
  "truncated_bytes = ''{\"id\":\"lathe_01\",\"t\":67''"

definition only_id_bytes :: string where
  "only_id_bytes = ''{\"id\":\"lathe_01\"}''"

definition numeric_id_bytes :: string where
  "numeric_id_bytes = ''{\"id\":42}''"

definition long_id :: string where
  "long_id = ''press_line_07_hall_B_station_0123456789_spindle_unit_000042''"

definition long_id_bytes :: string where
  "long_id_bytes = ''{\"id\":\"press_line_07_hall_B_station_0123456789_spindle_unit_000042\",\"r\":1}''"

definition failing_node_env :: "float32 node_env" where
  "failing_node_env =
     \<lparr>lora_begin = False, readTemperature = Finite (4410573 / 65536),
      readVibration = Finite (6442451 / 536870912),
      readRPM = 3200, endPacket = True\<rparr>"

section \<open>Properties of the gateway's building blocks\<close>

text \<open>The conversion at the decimals of the scenarios.\<close>

lemma ulp_exponent_673: "ulp_exponent (- 149) (673 / 10) = - 17"
  by (simp add: ulp_exponent.simps pow2_def)

lemma binary32_673: "binary32 (673 / 10) = Finite (4410573 / 65536)"
proof -
  have f: "\<lfloor>44105728 / 5 :: rat\<rfloor> = 8821145" by (simp add: floor_eq_iff)
  show ?thesis
    by (simp add: binary32_def ulp_exponent_673 round_half_even_def pow2_def Let_def f)
qed

lemma ulp_exponent_012: "ulp_exponent (- 149) (3 / 250) = - 30"
  by (simp add: ulp_exponent.simps pow2_def)

lemma binary32_012: "binary32 (3 / 250) = Finite (6442451 / 536870912)"
proof -
  have f: "\<lfloor>1610612736 / 125 :: rat\<rfloor> = 12884901" by (simp add: floor_eq_iff)
  show ?thesis
    by (simp add: binary32_def ulp_exponent_012 round_half_even_def pow2_def Let_def f)
qed

lemma ulp_exponent_0: "ulp_exponent (- 149) 0 = - 149"
  by (simp add: ulp_exponent.simps pow2_def)

lemma binary32_0: "binary32 0 = Finite 0"
  by (simp add: binary32_def ulp_exponent_0 round_half_even_def pow2_def Let_def)

lemma ulp_exponent_95: "ulp_exponent (- 149) (19 / 2) = - 20"
  by (simp add: ulp_exponent.simps pow2_def)

lemma binary32_95: "binary32 (19 / 2) = Finite (19 / 2)"
  by (simp add: binary32_def ulp_exponent_95 round_half_even_def pow2_def Let_def)

lemma emit_simps [simp]:
  "mqtt_connected (emit e s) = mqtt_connected s"
  "connect_calls (emit e s) = connect_calls s"
  "delayed_ms (emit e s) = delayed_ms s"
  "events (emit e s) = events s @ [e]"
  by (simp_all add: emit_def)

lemma reconnectMQTT_connected: "mqtt_connected s \<Longrightarrow> reconnectMQTT c s = Some s"
  by (subst reconnectMQTT.simps) simp

lemma reconnectMQTT_after:
  "\<not> mqtt_connected s \<Longrightarrow> (\<forall>k<n. \<not> c (connect_calls s + k)) \<Longrightarrow> c (connect_calls s + n) \<Longrightarrow>
   reconnectMQTT c s =
     Some (s\<lparr>mqtt_connected := True,
             connect_calls := connect_calls s + n + 1,
             delayed_ms := delayed_ms s + 5000 * n,
             events := events s @ replicate n (MqttConnect False) @ [MqttConnect True]\<rparr>)"
proof (induction n arbitrary: s)
  case 0
  then show ?case
    by (subst reconnectMQTT.simps) (simp add: reconnectMQTT_connected emit_def)
next
  case (Suc n)
  let ?s1 = "emit (MqttConnect False)
               (s\<lparr>connect_calls := Suc (connect_calls s), delayed_ms := delayed_ms s + 5000\<rparr>)"
  from Suc.prems have fail: "\<not> c (connect_calls s)"
    by (metis add.right_neutral zero_less_Suc)
  have a: "\<not> mqtt_connected ?s1" using Suc.prems by simp
  have b: "\<forall>k<n. \<not> c (connect_calls ?s1 + k)"
    using Suc.prems(2) by (auto simp: less_Suc_eq_0_disj)
  have d: "c (connect_calls ?s1 + n)" using Suc.prems(3) by simp
  have "reconnectMQTT c s = reconnectMQTT c ?s1"
    using Suc.prems(1) fail by (subst reconnectMQTT.simps) simp
  also note Suc.IH [OF a b d]
  finally show ?case
    by (simp add: emit_def replicate_app_Cons_same)
qed

lemma reconnectMQTT_SomeD:
  assumes "reconnectMQTT c s = Some s'"
  shows "mqtt_connected s \<or> (\<exists>n. c (connect_calls s + n))"
proof (rule reconnectMQTT.raw_induct
         [where P = "\<lambda>c s y. mqtt_connected s \<or> (\<exists>n. c (connect_calls s + n))", OF _ assms])
  fix rec :: "(nat \<Rightarrow> bool) \<Rightarrow> 'f gateway \<Rightarrow> 'f gateway option" and c s y
  assume IH: "\<And>c s y. rec c s = Some y \<Longrightarrow> mqtt_connected s \<or> (\<exists>n. c (connect_calls s + n))"
  assume step:
    "(if \<not> mqtt_connected s then
        (if c (connect_calls s)
         then rec c (emit (MqttConnect True)
                   (s\<lparr>mqtt_connected := True, connect_calls := Suc (connect_calls s)\<rparr>))
         else rec c (emit (MqttConnect False)
                   (s\<lparr>connect_calls := Suc (connect_calls s),
                      delayed_ms := delayed_ms s + 5000\<rparr>)))
      else Some s) = Some y"
  show "mqtt_connected s \<or> (\<exists>n. c (connect_calls s + n))"
  proof (cases "mqtt_connected s \<or> c (connect_calls s)")
    case True
    then show ?thesis by (metis add.right_neutral)
  next
    case False
    let ?s1 = "emit (MqttConnect False)
               (s\<lparr>connect_calls := Suc (connect_calls s), delayed_ms := delayed_ms s + 5000\<rparr>)"
    from False step have "rec c ?s1 = Some y" by simp
    from IH [OF this] False obtain n where "c (connect_calls ?s1 + n)" by auto
    then have "c (connect_calls s + Suc n)" by simp
    then show ?thesis by blast
  qed
qed

lemma reconnectMQTT_never:
  assumes "\<not> mqtt_connected s" and "\<forall>k. \<not> c (connect_calls s + k)"
  shows "reconnectMQTT c s = None"
proof (cases "reconnectMQTT c s")
  case None then show ?thesis .
next
  case (Some s')
  from reconnectMQTT_SomeD [OF this] assms show ?thesis by blast
qed

text \<open>The three ways \<open>handleLoRaPacket\<close> can go.\<close>

lemma handle_parse_error:
  "deserializeJson (payload pkt) = Inl e \<Longrightarrow>
   handleLoRaPacket to_float deserializeJson env pkt s = emit (JsonParseError e) s"
  by (simp add: handleLoRaPacket_def)

lemma handle_null_id:
  "deserializeJson (payload pkt) = Inr doc \<Longrightarrow> as_cstr (getMember doc ''id'') = None \<Longrightarrow>
   handleLoRaPacket to_float deserializeJson env pkt s = emit MissingMachineId s"
  by (simp add: handleLoRaPacket_def)

lemma handle_publish:
  "deserializeJson (payload pkt) = Inr doc \<Longrightarrow> as_cstr (getMember doc ''id'') = Some mid \<Longrightarrow>
   handleLoRaPacket to_float deserializeJson env pkt s =
     emit ((if mqtt_connected s \<and> write_ok env then Published else PublishFailed)
             (snprintf_ss 64 MQTT_TOPIC_PREFIX mid)
             \<lparr>machine_id = mid,
              timestamp = millis env div 1000,
              temperature = as_float to_float (getMember doc ''t''),
              vibration = as_float to_float (getMember doc ''v''),
              rpm = as_int (getMember doc ''r''),
              rssi = packetRssi pkt,
              snr = packetSnr pkt\<rparr>) s"
  by (simp add: handleLoRaPacket_def mqtt_publish_def Let_def)

text \<open>The reader on the packets of the scenarios.\<close>

lemmas reader_defs =
  readJson_def skipSpaces_def isspace_def canBeInNumber_def isdigit_def parseNumber_def
  digits_def digit_val_def unescape_def read_literal_def

lemma readJson_lathe:
  "readJson lathe_bytes =
     Inr (JObject [(''id'', JString ''lathe_01''), (''t'', JFloat (673 / 10)),
                   (''v'', JFloat (3 / 250)), (''r'', JInt 3200)])"
  by (simp add: lathe_bytes_def reader_defs)

lemma readJson_no_id:
  "readJson no_id_bytes =
     Inr (JObject [(''t'', JFloat (673 / 10)), (''v'', JFloat (3 / 250)), (''r'', JInt 3200)])"
  by (simp add: no_id_bytes_def reader_defs)

lemma readJson_empty_id:
  "readJson empty_id_bytes =
     Inr (JObject [(''id'', JString []), (''t'', JFloat (673 / 10)),
                   (''v'', JFloat (3 / 250)), (''r'', JInt 3200)])"
  by (simp add: empty_id_bytes_def reader_defs)

lemma readJson_truncated: "readJson truncated_bytes = Inl IncompleteInput"
  by (simp add: truncated_bytes_def reader_defs)

lemma readJson_only_id: "readJson only_id_bytes = Inr (JObject [(''id'', JString ''lathe_01'')])"
  by (simp add: only_id_bytes_def reader_defs)

lemma readJson_numeric_id: "readJson numeric_id_bytes = Inr (JObject [(''id'', JInt 42)])"
  by (simp add: numeric_id_bytes_def reader_defs)

lemma readJson_long_id:
  "readJson long_id_bytes = Inr (JObject [(''id'', JString long_id), (''r'', JInt 1)])"
  by (simp add: long_id_bytes_def long_id_def reader_defs)

text \<open>What the reader leaves over is part of what it was given.\<close>

lemma skipSpaces_ConsD: "skipSpaces s = c # cs \<Longrightarrow> c \<in> set s \<and> set cs \<subseteq> set s"
proof -
  assume a: "skipSpaces s = c # cs"
  have "set (skipSpaces s) \<subseteq> set s"
    by (auto simp: skipSpaces_def dest: set_dropWhileD)
  with a show ?thesis by simp
qed

lemma read_string_rest: "read_string acc s = Inr (x, r) \<Longrightarrow> set r \<subseteq> set s"
  by (induction acc s rule: read_string.induct) (auto split: if_splits option.splits)

lemma read_literal_rest: "read_literal lit v s = Inr (w, r) \<Longrightarrow> set r \<subseteq> set s"
  by (auto simp: read_literal_def split: if_splits dest: in_set_dropD)

lemma reader_rest:
  "\<forall>v r. read_value n s = Inr (v, r) \<longrightarrow> set r \<subseteq> set s"
  "\<forall>v r. read_members n kvs s = Inr (v, r) \<longrightarrow> set r \<subseteq> set s"
  "\<forall>v r. read_elements n vs s = Inr (v, r) \<longrightarrow> set r \<subseteq> set s"
proof (induction n s and n kvs s and n vs s rule: read_value_read_members_read_elements.induct)
  case (1 s)
  show ?case by simp
next
  case (2 n s)
  show ?case
  proof (intro allI impI)
    fix v r assume a: "read_value (Suc n) s = Inr (v, r)"
    then obtain c cs where sk: "skipSpaces s = c # cs"
      by (cases "skipSpaces s") auto
    note sub = skipSpaces_ConsD [OF sk]
    consider (obj) "c = CHR ''{''" | (arr) "c \<noteq> CHR ''{''" "c = CHR ''[''"
      | (str) "c \<noteq> CHR ''{''" "c \<noteq> CHR ''[''" "c = CHR 0x22"
      | (oth) "c \<noteq> CHR ''{''" "c \<noteq> CHR ''[''" "c \<noteq> CHR 0x22" by blast
    then show "set r \<subseteq> set s"
    proof cases
      case obj
      from a sk obj obtain d ds where sk2: "skipSpaces cs = d # ds"
        by (cases "skipSpaces cs") auto
      note sub2 = skipSpaces_ConsD [OF sk2]
      show ?thesis
      proof (cases "d = CHR ''}''")
        case True
        with a sk obj sk2 have "r = ds" by simp
        with sub sub2 show ?thesis by auto
      next
        case False
        with a sk obj sk2 have "read_members n [] cs = Inr (v, r)" by simp
        with "2.IH"(1) [OF sk obj sk2 False] have "set r \<subseteq> set cs" by blast
        with sub show ?thesis by auto
      qed
    next
      case arr
      from a sk arr obtain d ds where sk2: "skipSpaces cs = d # ds"
        by (cases "skipSpaces cs") auto
      note sub2 = skipSpaces_ConsD [OF sk2]
      show ?thesis
      proof (cases "d = CHR '']''")
        case True
        with a sk arr sk2 have "r = ds" by simp
        with sub sub2 show ?thesis by auto
      next
        case False
        with a sk arr sk2 have "read_elements n [] cs = Inr (v, r)" by simp
        with "2.IH"(2) [OF sk arr(1) arr(2) sk2 False] have "set r \<subseteq> set cs" by blast
        with sub show ?thesis by auto
      qed
    next
      case str
      with a sk obtain x where "read_string [] cs = Inr (x, r)"
        by (auto split: sum.splits)
      from read_string_rest [OF this] sub show ?thesis by auto
    next
      case oth
      from a sk oth have "(\<exists>lit w. read_literal lit w (c # cs) = Inr (v, r)) \<or>
          r = dropWhile canBeInNumber (c # cs)"
        by (auto simp: Let_def split: if_splits)
      then have "set r \<subseteq> set (c # cs)"
      proof (elim disjE exE)
        fix lit w assume "read_literal lit w (c # cs) = Inr (v, r)"
        then show ?thesis by (rule read_literal_rest)
      next
        assume "r = dropWhile canBeInNumber (c # cs)"
        then show ?thesis
          using set_dropWhileD [of _ canBeInNumber "c # cs"] by blast
      qed
      with sub show ?thesis by auto
    qed
  qed
next
  case (3 kvs s)
  show ?case by simp
next
  case (4 n kvs s)
  show ?case
  proof (intro allI impI)
    fix v r assume a: "read_members (Suc n) kvs s = Inr (v, r)"
    then obtain c cs where sk: "skipSpaces s = c # cs"
      by (cases "skipSpaces s") auto
    note sub = skipSpaces_ConsD [OF sk]
    have q: "\<not> c \<noteq> CHR 0x22"
    proof
      assume "c \<noteq> CHR 0x22"
      with a sk show False by simp
    qed
    from a sk q obtain key r1 where rs: "read_string [] cs = Inr (key, r1)"
      by (cases "read_string [] cs") auto
    note sub1 = read_string_rest [OF rs]
    from a sk q rs obtain d r2 where sk2: "skipSpaces r1 = d # r2"
      by (cases "skipSpaces r1") auto
    note sub2 = skipSpaces_ConsD [OF sk2]
    have col: "\<not> d \<noteq> CHR '':''"
    proof
      assume "d \<noteq> CHR '':''"
      with a sk q rs sk2 show False by simp
    qed
    from a sk q rs sk2 col obtain w r3 where rv: "read_value n r2 = Inr (w, r3)"
      by (cases "read_value n r2") auto
    from "4.IH"(1) [OF sk q _ _ sk2 col] rs rv have sub3: "set r3 \<subseteq> set r2" by auto
    from a sk q rs sk2 col rv obtain x r4 where sk3: "skipSpaces r3 = x # r4"
      by (cases "skipSpaces r3") auto
    note sub4 = skipSpaces_ConsD [OF sk3]
    have chain: "set r4 \<subseteq> set s" using sub sub1 sub2 sub3 sub4 by blast
    show "set r \<subseteq> set s"
    proof (cases "x = CHR '',''")
      case True
      with a sk q rs sk2 col rv sk3
      have "read_members n (setMember key w kvs) r4 = Inr (v, r)" by simp
      with "4.IH"(2) [OF sk q _ _ sk2 col _ _ sk3 True] rs rv
      have "set r \<subseteq> set r4" by auto
      with chain show ?thesis by blast
    next
      case False
      with a sk q rs sk2 col rv sk3 have "r = r4" by (auto split: if_splits)
      with chain show ?thesis by simp
    qed
  qed
next
  case (5 vs s)
  show ?case by simp
next
  case (6 n vs s)
  show ?case
  proof (intro allI impI)
    fix v r assume a: "read_elements (Suc n) vs s = Inr (v, r)"
    then obtain w r1 where rv: "read_value n s = Inr (w, r1)"
      by (cases "read_value n s") auto
    from "6.IH"(1) rv have sub1: "set r1 \<subseteq> set s" by blast
    from a rv obtain x r2 where sk: "skipSpaces r1 = x # r2"
      by (cases "skipSpaces r1") auto
    note sub2 = skipSpaces_ConsD [OF sk]
    show "set r \<subseteq> set s"
    proof (cases "x = CHR '',''")
      case True
      with a rv sk have "read_elements n (vs @ [w]) r2 = Inr (v, r)" by simp
      with "6.IH"(2) [OF _ _ sk True] rv have "set r \<subseteq> set r2" by auto
      with sub1 sub2 show ?thesis by blast
    next
      case False
      with a rv sk have "r = r2" by (auto split: if_splits)
      with sub1 sub2 show ?thesis by blast
    qed
  qed
qed

text \<open>An object is accepted only if a closing brace follows: text that begins an object
  and is cut before any closing brace is rejected.\<close>

lemma read_members_brace:
  "read_members n kvs s = Inr (v, r) \<Longrightarrow> CHR ''}'' \<in> set s"
proof (induction n arbitrary: kvs s)
  case 0
  then show ?case by simp
next
  case (Suc n)
  note a = Suc.prems
  then obtain c cs where sk: "skipSpaces s = c # cs"
    by (cases "skipSpaces s") auto
  note sub = skipSpaces_ConsD [OF sk]
  have q: "\<not> c \<noteq> CHR 0x22"
    proof
      assume "c \<noteq> CHR 0x22"
      with a sk show False by simp
    qed
  from a sk q obtain key r1 where rs: "read_string [] cs = Inr (key, r1)"
    by (cases "read_string [] cs") auto
  note sub1 = read_string_rest [OF rs]
  from a sk q rs obtain d r2 where sk2: "skipSpaces r1 = d # r2"
    by (cases "skipSpaces r1") auto
  note sub2 = skipSpaces_ConsD [OF sk2]
  have col: "\<not> d \<noteq> CHR '':''"
    proof
      assume "d \<noteq> CHR '':''"
      with a sk q rs sk2 show False by simp
    qed
  from a sk q rs sk2 col obtain w r3 where rv: "read_value n r2 = Inr (w, r3)"
    by (cases "read_value n r2") auto
  from reader_rest(1) rv have sub3: "set r3 \<subseteq> set r2" by blast
  from a sk q rs sk2 col rv obtain x r4 where sk3: "skipSpaces r3 = x # r4"
    by (cases "skipSpaces r3") auto
  note sub4 = skipSpaces_ConsD [OF sk3]
  have chain: "set r3 \<subseteq> set s" using sub sub1 sub2 sub3 by blast
  show ?case
  proof (cases "x = CHR '',''")
    case True
    with a sk q rs sk2 col rv sk3
    have "read_members n (setMember key w kvs) r4 = Inr (v, r)" by simp
    from Suc.IH [OF this] sub4 chain show ?thesis by blast
  next
    case False
    with a sk q rs sk2 col rv sk3 have "x = CHR ''}''" by (auto split: if_splits)
    with sub4 chain show ?thesis by blast
  qed
qed

lemma unclosed_object_rejected:
  assumes "skipSpaces s = CHR ''{'' # cs" and "CHR ''}'' \<notin> set s"
  shows "\<exists>e. readJson s = Inl e"
proof (cases "read_value (Suc (length s)) s")
  case (Inl e)
  with assms(1) show ?thesis by (simp add: readJson_def)
next
  case (Inr p)
  obtain v r where p: "p = (v, r)" by (cases p)
  note sub = skipSpaces_ConsD [OF assms(1)]
  from Inr p assms(1) obtain d ds where sk2: "skipSpaces cs = d # ds"
    by (cases "skipSpaces cs") auto
  note sub2 = skipSpaces_ConsD [OF sk2]
  have "CHR ''}'' \<in> set s"
  proof (cases "d = CHR ''}''")
    case True
    with sub sub2 show ?thesis by blast
  next
    case False
    with Inr p assms(1) sk2 have "read_members (length s) [] cs = Inr (v, r)" by simp
    from read_members_brace [OF this] sub show ?thesis by blast
  qed
  with assms(2) show ?thesis by simp
qed

lemma blank_rejected: "skipSpaces s = [] \<Longrightarrow> readJson s = Inl EmptyInput"
  by (simp add: readJson_def)

text \<open>Every truncation of the lathe payload is blank or an unclosed object.\<close>

lemma lathe_length: "length lathe_bytes = 45"
  by (simp add: lathe_bytes_def)

lemma truncation_rejected:
  assumes "n < length lathe_bytes"
  shows "\<exists>e. readJson (take n lathe_bytes) = Inl e"
proof (cases n)
  case 0
  then show ?thesis by (simp add: blank_rejected skipSpaces_def)
next
  case (Suc k)
  have nb: "CHR ''}'' \<notin> set (butlast lathe_bytes)"
    by (simp add: lathe_bytes_def)
  from assms have "take n lathe_bytes = take n (butlast lathe_bytes)"
    by (simp add: take_butlast)
  then have "set (take n lathe_bytes) \<subseteq> set (butlast lathe_bytes)"
    by (simp add: set_take_subset)
  with nb have 1: "CHR ''}'' \<notin> set (take n lathe_bytes)" by blast
  have 2: "skipSpaces (take n lathe_bytes) = CHR ''{'' # take k (tl lathe_bytes)"
    using Suc by (simp add: lathe_bytes_def skipSpaces_def isspace_def)
  from unclosed_object_rejected [OF 2 1] show ?thesis .
qed

lemma bad_start_rejected:
  assumes "skipSpaces s = c # cs" and "c \<notin> set ''{[\"tfn''" and "\<not> canBeInNumber c"
  shows "readJson s = Inl InvalidInput"
  using assms by (simp add: readJson_def)

text \<open>The reader stops at the end of the first value: what follows is not read.\<close>

lemma trailing_text_is_ignored:
  "readJson ''{\"id\":\"lathe_01\"}}} garbage'' = Inr (JObject [(''id'', JString ''lathe_01'')])"
  by (simp add: reader_defs)

section \<open>The node: radio initialisation failure\<close>

text \<open>
  Claim C8. When \<open>LoRa.begin\<close> fails, the boot consists of the start-up delay, the single
  call of \<open>LoRa.begin\<close>, a delay of five seconds and \<open>ESP.restart()\<close>: the boot ends in a
  restart, \<open>LoRa.begin\<close> is not called a second time, and nothing is sampled, encoded or
  transmitted in that boot.
\<close>

theorem radio_init_failure_restarts:
  assumes "\<not> lora_begin env"
  shows "node_setup round1 round3 env bootCount =
           (bootCount + 1, [Delay 1000, LoRaBegin, Delay 5000, EspRestart], Restarted)
         \<and> count_list (fst (snd (node_setup round1 round3 env bootCount))) LoRaBegin = 1
         \<and> list_all (\<lambda>e. \<not> samples_or_sends e) (fst (snd (node_setup round1 round3 env bootCount)))"
  using assms by (simp add: node_setup_def setupLoRa_def)

theorem radio_init_failure_restarts_witness:
  "\<not> lora_begin failing_node_env
   \<and> node_setup id id failing_node_env 4 =
       (5, [Delay 1000, LoRaBegin, Delay 5000, EspRestart], Restarted)"
proof -
  have h: "\<not> lora_begin failing_node_env" by (simp add: failing_node_env_def)
  from radio_init_failure_restarts [OF h, of id id 4] h
  show ?thesis by simp
qed

section \<open>The gateway: one packet\<close>

lemma topic_short:
  "length mid \<le> 55 \<Longrightarrow> snprintf_ss 64 MQTT_TOPIC_PREFIX mid = ''factory'' @ ''/'' @ mid"
  by (simp add: snprintf_ss_def MQTT_TOPIC_PREFIX_def)

lemma topic_length: "length (snprintf_ss 64 MQTT_TOPIC_PREFIX mid) \<le> 63"
  by (simp add: snprintf_ss_def)

lemma topic_long:
  "55 < length mid \<Longrightarrow>
   length (snprintf_ss 64 MQTT_TOPIC_PREFIX mid) = 63 \<and>
   snprintf_ss 64 MQTT_TOPIC_PREFIX mid = MQTT_TOPIC_PREFIX @ take 55 mid \<and>
   snprintf_ss 64 MQTT_TOPIC_PREFIX mid \<noteq> MQTT_TOPIC_PREFIX @ mid"
proof -
  assume l: "55 < length mid"
  have "length (snprintf_ss 64 MQTT_TOPIC_PREFIX mid) = 63"
    using l by (simp add: snprintf_ss_def MQTT_TOPIC_PREFIX_def)
  moreover have "snprintf_ss 64 MQTT_TOPIC_PREFIX mid = MQTT_TOPIC_PREFIX @ take 55 mid"
    by (simp add: snprintf_ss_def MQTT_TOPIC_PREFIX_def)
  moreover have "length (MQTT_TOPIC_PREFIX @ mid) \<noteq> 63"
    using l by (simp add: MQTT_TOPIC_PREFIX_def)
  ultimately show ?thesis by metis
qed




lemma handle_publish_fields:
  assumes "deserializeJson (payload pkt) = Inr doc" and "as_cstr (getMember doc ''id'') = Some mid"
  shows "\<exists>c. handleLoRaPacket to_float deserializeJson env pkt s =
               emit ((if mqtt_connected s \<and> write_ok env then Published else PublishFailed)
                       (snprintf_ss 64 MQTT_TOPIC_PREFIX mid) c) s \<and>
             machine_id c = mid \<and>
             timestamp c = millis env div 1000 \<and>
             temperature c = as_float to_float (getMember doc ''t'') \<and>
             vibration c = as_float to_float (getMember doc ''v'') \<and>
             rpm c = as_int (getMember doc ''r'') \<and>
             rssi c = packetRssi pkt \<and>
             snr c = packetSnr pkt"
  using handle_publish [where deserializeJson = deserializeJson and pkt = pkt and doc = doc
        and to_float = to_float and s = s and env = env, OF assms]
  by (intro exI [where x = "\<lparr>machine_id = mid,
              timestamp = millis env div 1000,
              temperature = as_float to_float (getMember doc ''t''),
              vibration = as_float to_float (getMember doc ''v''),
              rpm = as_int (getMember doc ''r''),
              rssi = packetRssi pkt,
              snr = packetSnr pkt\<rparr>"]) simp


lemma handle_empty_id:
  "mqtt_connected s \<Longrightarrow>
   handleLoRaPacket binary32 readJson (packet_env bytes lost) (test_packet empty_id_bytes) s =
     emit (Published ''factory/''
             \<lparr>machine_id = [], timestamp = 12345, temperature = Finite (4410573 / 65536),
              vibration = Finite (6442451 / 536870912), rpm = 3200, rssi = - 45, snr = Finite (19 / 2)\<rparr>) s"
  using handle_publish [where deserializeJson = readJson and pkt = "test_packet empty_id_bytes"
      and doc = "JObject [(''id'', JString []), (''t'', JFloat (673 / 10)),
                   (''v'', JFloat (3 / 250)), (''r'', JInt 3200)]"
      and mid = "[]" and to_float = binary32 and s = s
      and env = "packet_env bytes lost"]
  by (simp add: test_packet_def readJson_empty_id packet_env_def binary32_673 binary32_012 binary32_0 topic_short
      int_of_JInt_def INT_MIN_def INT_MAX_def)

lemma long_id_length: "length long_id = 59"
  by (simp add: long_id_def)

lemma long_id_topic:
  "snprintf_ss 64 MQTT_TOPIC_PREFIX long_id =
     ''factory/press_line_07_hall_B_station_0123456789_spindle_unit_00''"
  by (simp add: snprintf_ss_def MQTT_TOPIC_PREFIX_def long_id_def)

lemma handle_long_id:
  "mqtt_connected s \<Longrightarrow>
   handleLoRaPacket binary32 readJson (packet_env bytes lost) (test_packet long_id_bytes) s =
     emit (Published ''factory/press_line_07_hall_B_station_0123456789_spindle_unit_00''
             \<lparr>machine_id = long_id, timestamp = 12345, temperature = Finite 0,
              vibration = Finite 0, rpm = 1, rssi = - 45, snr = Finite (19 / 2)\<rparr>) s"
  using handle_publish [where deserializeJson = readJson and pkt = "test_packet long_id_bytes"
      and doc = "JObject [(''id'', JString long_id), (''r'', JInt 1)]"
      and mid = long_id and to_float = binary32 and s = s
      and env = "packet_env bytes lost"]
  by (simp add: test_packet_def readJson_long_id packet_env_def binary32_673 binary32_012 binary32_0 long_id_topic
      int_of_JInt_def INT_MIN_def INT_MAX_def)

text \<open>
  Claim C9, as the code has it. \<open>machineId\<close> is the \<open>id\<close> member read as a C string,
  so it is non-null exactly when the member is a JSON string. A packet that parses and
  whose \<open>id\<close> is a string is not discarded, whatever numeric members it lacks: publish is
  called with the canonical payload in which temperature, vibration and rpm are the
  conversions of the members \<open>t\<close>, \<open>v\<close> and \<open>r\<close> and are 0 wherever the member is
  missing; identity, link quality and clock are carried as for a complete packet. A
  member \<open>id\<close> that is present and not null but is not a string, a number for one, gives
  the null pointer: its packet is discarded.
\<close>

theorem missing_numeric_members_are_zero:
  assumes "deserializeJson (payload pkt) = Inr (JObject kvs)"
    and "as_cstr (getMember (JObject kvs) ''id'') = Some mid"
  shows "\<exists>c. handleLoRaPacket to_float deserializeJson env pkt s =
               emit ((if mqtt_connected s \<and> write_ok env then Published else PublishFailed)
                       (snprintf_ss 64 MQTT_TOPIC_PREFIX mid) c) s \<and>
             c = \<lparr>machine_id = mid,
                  timestamp = millis env div 1000,
                  temperature = (case map_of kvs ''t'' of
                                   None \<Rightarrow> to_float 0 | Some v \<Rightarrow> as_float to_float v),
                  vibration = (case map_of kvs ''v'' of
                                 None \<Rightarrow> to_float 0 | Some v \<Rightarrow> as_float to_float v),
                  rpm = (case map_of kvs ''r'' of None \<Rightarrow> 0 | Some v \<Rightarrow> as_int v),
                  rssi = packetRssi pkt,
                  snr = packetSnr pkt\<rparr> \<and>
             (map_of kvs ''t'' = None \<longrightarrow> temperature c = to_float 0) \<and>
             (map_of kvs ''v'' = None \<longrightarrow> vibration c = to_float 0) \<and>
             (map_of kvs ''r'' = None \<longrightarrow> rpm c = 0)"
proof -
  let ?c = "\<lparr>machine_id = mid,
                  timestamp = millis env div 1000,
                  temperature = (case map_of kvs ''t'' of
                                   None \<Rightarrow> to_float 0 | Some v \<Rightarrow> as_float to_float v),
                  vibration = (case map_of kvs ''v'' of
                                 None \<Rightarrow> to_float 0 | Some v \<Rightarrow> as_float to_float v),
                  rpm = (case map_of kvs ''r'' of None \<Rightarrow> 0 | Some v \<Rightarrow> as_int v),
                  rssi = packetRssi pkt,
                  snr = packetSnr pkt\<rparr>"
  have t: "as_float to_float (getMember (JObject kvs) ''t'') =
             (case map_of kvs ''t'' of None \<Rightarrow> to_float 0 | Some v \<Rightarrow> as_float to_float v)"
    by (simp split: option.splits)
  have v: "as_float to_float (getMember (JObject kvs) ''v'') =
             (case map_of kvs ''v'' of None \<Rightarrow> to_float 0 | Some v \<Rightarrow> as_float to_float v)"
    by (simp split: option.splits)
  have r: "as_int (getMember (JObject kvs) ''r'') =
             (case map_of kvs ''r'' of None \<Rightarrow> 0 | Some v \<Rightarrow> as_int v)"
    by (simp split: option.splits)
  have h: "handleLoRaPacket to_float deserializeJson env pkt s =
               emit ((if mqtt_connected s \<and> write_ok env then Published else PublishFailed)
                       (snprintf_ss 64 MQTT_TOPIC_PREFIX mid) ?c) s"
    using handle_publish [where deserializeJson = deserializeJson and pkt = pkt
        and doc = "JObject kvs" and to_float = to_float and s = s and env = env, OF assms]
    unfolding t v r .
  show ?thesis
  proof (intro exI conjI)
    show "handleLoRaPacket to_float deserializeJson env pkt s =
               emit ((if mqtt_connected s \<and> write_ok env then Published else PublishFailed)
                       (snprintf_ss 64 MQTT_TOPIC_PREFIX mid) ?c) s"
      by (rule h)
    show "?c = ?c" by (rule refl)
    show "map_of kvs ''t'' = None \<longrightarrow> temperature ?c = to_float 0" by simp
    show "map_of kvs ''v'' = None \<longrightarrow> vibration ?c = to_float 0" by simp
    show "map_of kvs ''r'' = None \<longrightarrow> rpm ?c = 0" by simp
  qed
qed

theorem missing_numeric_members_are_zero_witness:
  "readJson (payload (test_packet only_id_bytes)) = Inr (JObject [(''id'', JString ''lathe_01'')]) \<and>
   as_cstr (getMember (JObject [(''id'', JString ''lathe_01'')]) ''id'') = Some ''lathe_01'' \<and>
   handleLoRaPacket binary32 readJson (packet_env only_id_bytes False)
       (test_packet only_id_bytes) gateway_connected =
     emit (Published ''factory/lathe_01''
             \<lparr>machine_id = ''lathe_01'', timestamp = 12345, temperature = Finite 0,
              vibration = Finite 0, rpm = 0, rssi = - 45, snr = Finite (19 / 2)\<rparr>)
       gateway_connected"
proof -
  have p: "readJson (payload (test_packet only_id_bytes)) =
             Inr (JObject [(''id'', JString ''lathe_01'')])"
    by (simp add: test_packet_def readJson_only_id)
  have i: "as_cstr (getMember (JObject [(''id'', JString ''lathe_01'')]) ''id'') = Some ''lathe_01''"
    by simp
  have k: "snprintf_ss 64 MQTT_TOPIC_PREFIX ''lathe_01'' = ''factory/lathe_01''"
    by (simp add: topic_short)
  from missing_numeric_members_are_zero [where deserializeJson = readJson
      and to_float = binary32 and env = "packet_env only_id_bytes False"
      and s = gateway_connected, OF p i]
  have "handleLoRaPacket binary32 readJson (packet_env only_id_bytes False)
       (test_packet only_id_bytes) gateway_connected =
     emit (Published ''factory/lathe_01''
             \<lparr>machine_id = ''lathe_01'', timestamp = 12345, temperature = Finite 0,
              vibration = Finite 0, rpm = 0, rssi = - 45, snr = Finite (19 / 2)\<rparr>)
       gateway_connected"
    by (simp add: k binary32_0 gateway_connected_def packet_env_def test_packet_def)
  with p i show ?thesis by simp
qed

text \<open>A packet with \<open>{"id":42}\<close> parses, its \<open>id\<close> is not null, and it lacks \<open>t\<close>, \<open>v\<close>
  and \<open>r\<close>: it is discarded as missing its machine ID, not published with zeros.\<close>

theorem numeric_identity_is_discarded:
  "readJson numeric_id_bytes = Inr (JObject [(''id'', JInt 42)]) \<and>
   getMember (JObject [(''id'', JInt 42)]) ''id'' \<noteq> JNull \<and>
   handleLoRaPacket binary32 readJson (packet_env numeric_id_bytes False)
       (test_packet numeric_id_bytes) gateway_connected =
     emit MissingMachineId gateway_connected"
proof -
  have "handleLoRaPacket binary32 readJson (packet_env numeric_id_bytes False)
       (test_packet numeric_id_bytes) gateway_connected =
     emit MissingMachineId gateway_connected"
    by (rule handle_null_id [where doc = "JObject [(''id'', JInt 42)]"])
       (simp_all add: test_packet_def readJson_numeric_id)
  then show ?thesis by (simp add: readJson_numeric_id)
qed

section \<open>The gateway: the topic\<close>

text \<open>
  Claim C5, as the code has it. The configured prefix is \<open>"factory/"\<close>, the slash
  included, and the topic is the concatenation of prefix and identity cut to 63 characters.
  For every packet that passes the two checks and whose identity has at most 55 characters
  the topic of the publish call is \<open>factory\<close>, \<open>/\<close> and the identity, taken verbatim;
  for \<open>lathe_01\<close> it is \<open>factory/lathe_01\<close>.
\<close>

theorem topic_is_prefix_slash_identity:
  assumes "deserializeJson (payload pkt) = Inr doc"
    and "as_cstr (getMember doc ''id'') = Some mid"
    and "length mid \<le> 55"
  shows "\<exists>c. handleLoRaPacket to_float deserializeJson env pkt s =
               emit ((if mqtt_connected s \<and> write_ok env then Published else PublishFailed)
                       (''factory'' @ ''/'' @ mid) c) s \<and>
             machine_id c = mid"
proof -
  from handle_publish_fields [where deserializeJson = deserializeJson and to_float = to_float
      and env = env and s = s, OF assms(1,2)]
  obtain c where "handleLoRaPacket to_float deserializeJson env pkt s =
               emit ((if mqtt_connected s \<and> write_ok env then Published else PublishFailed)
                       (snprintf_ss 64 MQTT_TOPIC_PREFIX mid) c) s"
    and "machine_id c = mid"
    by blast
  then show ?thesis
    using topic_short [OF assms(3)] by (intro exI [where x = c]) simp
qed

theorem topic_is_prefix_slash_identity_witness:
  "readJson (payload (test_packet lathe_bytes)) =
     Inr (JObject [(''id'', JString ''lathe_01''), (''t'', JFloat (673 / 10)),
                   (''v'', JFloat (3 / 250)), (''r'', JInt 3200)]) \<and>
   length ''lathe_01'' \<le> 55 \<and>
   (\<exists>c. handleLoRaPacket binary32 readJson (packet_env lathe_bytes False)
            (test_packet lathe_bytes) gateway_connected =
          emit (Published ''factory/lathe_01'' c) gateway_connected \<and>
        machine_id c = ''lathe_01'')"
proof -
  let ?doc = "JObject [(''id'', JString ''lathe_01''), (''t'', JFloat (673 / 10)),
                       (''v'', JFloat (3 / 250)), (''r'', JInt 3200)]"
  have p: "readJson (payload (test_packet lathe_bytes)) = Inr ?doc"
    by (simp add: test_packet_def readJson_lathe)
  have i: "as_cstr (getMember ?doc ''id'') = Some ''lathe_01''" by simp
  have l: "length ''lathe_01'' \<le> 55" by simp
  have c: "mqtt_connected gateway_connected" "write_ok (packet_env lathe_bytes False)"
    by (simp_all add: gateway_connected_def packet_env_def)
  from topic_is_prefix_slash_identity [where deserializeJson = readJson
      and to_float = binary32 and env = "packet_env lathe_bytes False"
      and s = gateway_connected, OF p i l]
  show ?thesis using p c by simp
qed

text \<open>An identity of 59 characters passes both checks, and the topic of its publish call
  is not prefix, slash and identity: the last four characters of the identity are missing.\<close>

theorem long_identity_topic_differs:
  "handleLoRaPacket binary32 readJson (packet_env long_id_bytes False)
       (test_packet long_id_bytes) gateway_connected =
     emit (Published ''factory/press_line_07_hall_B_station_0123456789_spindle_unit_00''
             \<lparr>machine_id = ''press_line_07_hall_B_station_0123456789_spindle_unit_000042'',
              timestamp = 12345, temperature = Finite 0, vibration = Finite 0, rpm = 1, rssi = - 45,
              snr = Finite (19 / 2)\<rparr>) gateway_connected \<and>
   ''factory/press_line_07_hall_B_station_0123456789_spindle_unit_00'' \<noteq>
     ''factory'' @ ''/'' @ ''press_line_07_hall_B_station_0123456789_spindle_unit_000042''"
proof -
  have "mqtt_connected gateway_connected" by (simp add: gateway_connected_def)
  from handle_long_id [OF this, of long_id_bytes False]
  show ?thesis by (simp add: long_id_def)
qed

text \<open>
  Claim C10. The topic of every publish call has at most 63 characters: it is the first 63
  characters of prefix and identity. An identity longer than the 55 characters that remain
  after the prefix is cut without any error: the call is made all the same, on a topic of
  exactly 63 characters that holds the first 55 characters of the identity and differs from
  the full concatenation.
\<close>

theorem topic_fits_buffer:
  assumes "deserializeJson (payload pkt) = Inr doc"
    and "as_cstr (getMember doc ''id'') = Some mid"
  shows "\<exists>t c. handleLoRaPacket to_float deserializeJson env pkt s =
               emit ((if mqtt_connected s \<and> write_ok env then Published else PublishFailed) t c) s \<and>
             machine_id c = mid \<and>
             length t \<le> 63 \<and>
             t = take 63 (MQTT_TOPIC_PREFIX @ mid) \<and>
             (55 < length mid \<longrightarrow>
                length t = 63 \<and> t = MQTT_TOPIC_PREFIX @ take 55 mid \<and>
                t \<noteq> MQTT_TOPIC_PREFIX @ mid)"
proof -
  from handle_publish_fields [where deserializeJson = deserializeJson and to_float = to_float
      and env = env and s = s, OF assms(1,2)]
  obtain c where c: "handleLoRaPacket to_float deserializeJson env pkt s =
               emit ((if mqtt_connected s \<and> write_ok env then Published else PublishFailed)
                       (snprintf_ss 64 MQTT_TOPIC_PREFIX mid) c) s"
    "machine_id c = mid"
    by blast
  define t where "t = snprintf_ss 64 MQTT_TOPIC_PREFIX mid"
  have h: "handleLoRaPacket to_float deserializeJson env pkt s =
      emit ((if mqtt_connected s \<and> write_ok env then Published else PublishFailed) t c) s"
    using c(1) by (simp add: t_def)
  have l: "length t \<le> 63" unfolding t_def by (rule topic_length)
  have e: "t = take 63 (MQTT_TOPIC_PREFIX @ mid)" by (simp add: t_def snprintf_ss_def)
  have g: "55 < length mid \<longrightarrow>
      length t = 63 \<and> t = MQTT_TOPIC_PREFIX @ take 55 mid \<and> t \<noteq> MQTT_TOPIC_PREFIX @ mid"
    unfolding t_def using topic_long [of mid] by blast
  show ?thesis
  proof (intro exI conjI)
    show "handleLoRaPacket to_float deserializeJson env pkt s =
      emit ((if mqtt_connected s \<and> write_ok env then Published else PublishFailed) t c) s"
      by (rule h)
    show "machine_id c = mid" by (rule c(2))
    show "length t \<le> 63" by (rule l)
    show "t = take 63 (MQTT_TOPIC_PREFIX @ mid)" by (rule e)
    show "55 < length mid \<longrightarrow>
      length t = 63 \<and> t = MQTT_TOPIC_PREFIX @ take 55 mid \<and> t \<noteq> MQTT_TOPIC_PREFIX @ mid"
      by (rule g)
  qed
qed

theorem topic_fits_buffer_witness:
  "readJson (payload (test_packet long_id_bytes)) =
     Inr (JObject [(''id'', JString long_id), (''r'', JInt 1)]) \<and>
   55 < length long_id \<and>
   (\<exists>t c. handleLoRaPacket binary32 readJson (packet_env long_id_bytes False)
            (test_packet long_id_bytes) gateway_connected =
          emit (Published t c) gateway_connected \<and>
        machine_id c = long_id \<and> length t = 63 \<and>
        t = ''factory/press_line_07_hall_B_station_0123456789_spindle_unit_00'')"
proof -
  let ?doc = "JObject [(''id'', JString long_id), (''r'', JInt 1)]"
  have p: "readJson (payload (test_packet long_id_bytes)) = Inr ?doc"
    by (simp add: test_packet_def readJson_long_id)
  have i: "as_cstr (getMember ?doc ''id'') = Some long_id" by simp
  have l: "55 < length long_id" by (simp add: long_id_length)
  have c: "mqtt_connected gateway_connected" "write_ok (packet_env long_id_bytes False)"
    by (simp_all add: gateway_connected_def packet_env_def)
  have k: "MQTT_TOPIC_PREFIX @ take 55 long_id =
      ''factory/press_line_07_hall_B_station_0123456789_spindle_unit_00''"
    by (simp add: MQTT_TOPIC_PREFIX_def long_id_def)
  from topic_fits_buffer [where deserializeJson = readJson
      and to_float = binary32 and env = "packet_env long_id_bytes False"
      and s = gateway_connected, OF p i]
  obtain t c where tc: "handleLoRaPacket binary32 readJson (packet_env long_id_bytes False)
            (test_packet long_id_bytes) gateway_connected =
          emit ((if mqtt_connected gateway_connected \<and> write_ok (packet_env long_id_bytes False)
                 then Published else PublishFailed) t c) gateway_connected"
    "machine_id c = long_id"
    "55 < length long_id \<longrightarrow>
                length t = 63 \<and> t = MQTT_TOPIC_PREFIX @ take 55 long_id \<and>
                t \<noteq> MQTT_TOPIC_PREFIX @ long_id"
    by blast
  from tc(3) l k have "length t = 63"
    and "t = ''factory/press_line_07_hall_B_station_0123456789_spindle_unit_00''"
    by simp_all
  with tc(1,2) c p l show ?thesis
    by (intro conjI exI [where x = t] exI [where x = c]) simp_all
qed

section \<open>The gateway: connection and reception in one pass of \<open>loop()\<close>\<close>


text \<open>What \<open>handleLoRaPacket\<close> adds is exactly one event, and it changes nothing else.\<close>

lemma handle_one_event:
  "\<exists>ev. handleLoRaPacket to_float deserializeJson env pkt s = emit ev s \<and>
        (\<forall>t c. ev = Published t c \<longrightarrow> mqtt_connected s \<and> write_ok env) \<and>
        (\<forall>t c. ev = PublishFailed t c \<longrightarrow> \<not> (mqtt_connected s \<and> write_ok env)) \<and>
        (\<forall>b. ev \<noteq> MqttConnect b)"
proof (cases "deserializeJson (payload pkt)")
  case (Inl e)
  then show ?thesis
    by (intro exI [where x = "JsonParseError e"]) (simp add: handle_parse_error)
next
  case (Inr doc)
  show ?thesis
  proof (cases "as_cstr (getMember doc ''id'')")
    case None
    with Inr show ?thesis
      by (intro exI [where x = MissingMachineId]) (simp add: handle_null_id)
  next
    case (Some mid)
    let ?c = "\<lparr>machine_id = mid,
              timestamp = millis env div 1000,
              temperature = as_float to_float (getMember doc ''t''),
              vibration = as_float to_float (getMember doc ''v''),
              rpm = as_int (getMember doc ''r''),
              rssi = packetRssi pkt,
              snr = packetSnr pkt\<rparr>"
    let ?t = "snprintf_ss 64 MQTT_TOPIC_PREFIX mid"
    note h = handle_publish [where deserializeJson = deserializeJson and pkt = pkt
        and to_float = to_float and env = env and s = s, OF Inr Some]
    show ?thesis
    proof (cases "mqtt_connected s \<and> write_ok env")
      case True
      with h show ?thesis by (intro exI [where x = "Published ?t ?c"]) simp
    next
      case False
      with h show ?thesis by (intro exI [where x = "PublishFailed ?t ?c"]) simp
    qed
  qed
qed


lemma mqtt_loop_simps [simp]:
  "mqtt_connected (mqtt_loop env s) = (mqtt_connected s \<and> \<not> link_lost env)"
  "connect_calls (mqtt_loop env s) = connect_calls s"
  "delayed_ms (mqtt_loop env s) = delayed_ms s"
  "events (mqtt_loop env s) = events s"
  by (simp_all add: mqtt_loop_def)

lemma mqtt_loop_radio [simp]: "mqtt_loop (env\<lparr>radio := r\<rparr>) s = mqtt_loop env s"
  by (simp add: mqtt_loop_def)


lemma emit_eq_iff [simp]: "(emit e s = emit e' s) = (e = e')"
proof
  assume "emit e s = emit e' s"
  then have "events (emit e s) = events (emit e' s)" by simp
  then show "e = e'" by simp
qed simp


lemma loop_after_reconnect:
  assumes "(if \<not> mqtt_connected s then reconnectMQTT connect s else Some s) = Some s1"
    and "radio env = Some pkt" and "payload pkt \<noteq> []"
  shows "loop to_float deserializeJson connect env s =
           Some ((handleLoRaPacket to_float deserializeJson env pkt (mqtt_loop env s1))
                   \<lparr>delayed_ms := delayed_ms s1 + 10\<rparr>)"
proof -
  from handle_one_event [of to_float deserializeJson env pkt "mqtt_loop env s1"]
  obtain ev where "handleLoRaPacket to_float deserializeJson env pkt (mqtt_loop env s1) =
      emit ev (mqtt_loop env s1)" by blast
  then show ?thesis
    using assms by (simp add: loop_def Let_def parsePacket_def)
qed

lemma loop_blocked:
  assumes "\<not> mqtt_connected s" and "\<forall>k. \<not> connect (connect_calls s + k)"
  shows "loop to_float deserializeJson connect env s = None"
  using assms reconnectMQTT_never [OF assms] by (simp add: loop_def)

lemma packet_env_simps [simp]:
  "radio (packet_env bytes lost) = Some (test_packet bytes)"
  "link_lost (packet_env bytes lost) = lost"
  "write_ok (packet_env bytes lost) = True"
  "millis (packet_env bytes lost) = 12345678"
  "payload (test_packet bytes) = bytes"
  by (simp_all add: packet_env_def test_packet_def)


lemma gateway_boot_simps [simp]:
  "mqtt_connected gateway_boot = False"
  "connect_calls gateway_boot = 0"
  "delayed_ms gateway_boot = 1000"
  "events gateway_boot = []"
  by (simp_all add: gateway_boot_def)

lemma lathe_bytes_nonempty [simp]: "lathe_bytes \<noteq> []"
  by (simp add: lathe_bytes_def)








section \<open>The gateway: discarded packets\<close>

text \<open>A pass that starts connected and meets a packet that fails decoding or validation
  returns, and leaves the gateway as a pass without packet does, with the discard added.\<close>

lemma handle_discard:
  assumes "deserializeJson (payload bad) = Inl e \<or>
           deserializeJson (payload bad) = Inr d \<and> as_cstr (getMember d ''id'') = None"
  shows "handleLoRaPacket to_float deserializeJson env bad s =
           emit (case deserializeJson (payload bad) of
                   Inl x \<Rightarrow> JsonParseError x | Inr y \<Rightarrow> MissingMachineId) s"
  using assms
proof
  assume "deserializeJson (payload bad) = Inl e"
  then show ?thesis by (simp add: handle_parse_error)
next
  assume "deserializeJson (payload bad) = Inr d \<and> as_cstr (getMember d ''id'') = None"
  then show ?thesis by (simp add: handle_null_id)
qed

lemma discard_not_publish:
  assumes "deserializeJson (payload bad) = Inl e \<or>
           deserializeJson (payload bad) = Inr d \<and> as_cstr (getMember d ''id'') = None"
  shows "\<not> is_publish_call (case deserializeJson (payload bad) of
                   Inl x \<Rightarrow> JsonParseError x | Inr y \<Rightarrow> MissingMachineId)"
  by (cases "deserializeJson (payload bad)") simp_all

lemma loop_without_packet:
  assumes "mqtt_connected s"
  shows "loop to_float deserializeJson connect (env\<lparr>radio := None\<rparr>) s =
           Some ((mqtt_loop env s)\<lparr>delayed_ms := delayed_ms s + 10\<rparr>)"
  using assms by (simp add: loop_def Let_def)

lemma loop_discards:
  assumes "deserializeJson (payload bad) = Inl e \<or>
           deserializeJson (payload bad) = Inr d \<and> as_cstr (getMember d ''id'') = None"
    and "mqtt_connected s" and "radio env = Some bad" and "payload bad \<noteq> []"
  shows "loop to_float deserializeJson connect env s =
           Some (emit (case deserializeJson (payload bad) of
                         Inl x \<Rightarrow> JsonParseError x | Inr y \<Rightarrow> MissingMachineId)
                   ((mqtt_loop env s)\<lparr>delayed_ms := delayed_ms s + 10\<rparr>))"
proof -
  from assms(2) have r: "(if \<not> mqtt_connected s then reconnectMQTT connect s else Some s) = Some s"
    by simp
  show ?thesis
    using loop_after_reconnect [where to_float = to_float and deserializeJson = deserializeJson
        and connect = connect and env = env and s = s and ?s1.0 = s and pkt = bad,
        OF r assms(3) assms(4)]
      handle_discard [where deserializeJson = deserializeJson and bad = bad and e = e and d = d
        and to_float = to_float and env = env and s = "mqtt_loop env s", OF assms(1)]
    by (simp add: emit_def)
qed

lemma loop_publishes:
  assumes "mqtt_connected s" and "radio env = Some good" and "payload good \<noteq> []"
    and "deserializeJson (payload good) = Inr doc"
    and "as_cstr (getMember doc ''id'') = Some mid"
  shows "\<exists>c. machine_id c = mid \<and>
             loop to_float deserializeJson connect env s =
               Some (emit ((if \<not> link_lost env \<and> write_ok env then Published else PublishFailed)
                             (snprintf_ss 64 MQTT_TOPIC_PREFIX mid) c)
                       ((mqtt_loop env s)\<lparr>delayed_ms := delayed_ms s + 10\<rparr>))"
proof -
  from assms(1) have r: "(if \<not> mqtt_connected s then reconnectMQTT connect s else Some s) = Some s"
    by simp
  let ?c = "\<lparr>machine_id = mid,
              timestamp = millis env div 1000,
              temperature = as_float to_float (getMember doc ''t''),
              vibration = as_float to_float (getMember doc ''v''),
              rpm = as_int (getMember doc ''r''),
              rssi = packetRssi good,
              snr = packetSnr good\<rparr>"
  have "loop to_float deserializeJson connect env s =
               Some (emit ((if \<not> link_lost env \<and> write_ok env then Published else PublishFailed)
                             (snprintf_ss 64 MQTT_TOPIC_PREFIX mid) ?c)
                       ((mqtt_loop env s)\<lparr>delayed_ms := delayed_ms s + 10\<rparr>))"
    using loop_after_reconnect [where to_float = to_float and deserializeJson = deserializeJson
        and connect = connect and env = env and s = s and ?s1.0 = s and pkt = good,
        OF r assms(2) assms(3)]
      handle_publish [where deserializeJson = deserializeJson and pkt = good and doc = doc
        and to_float = to_float and s = "mqtt_loop env s" and env = env and mid = mid,
        OF assms(4) assms(5)] assms(1)
    by (simp add: emit_def)
  then show ?thesis by (intro exI [where x = ?c]) simp
qed

text \<open>
  Claim C3, as the code has it. The decode step fails on the bytes the JSON reader rejects
  (\<open>deserializeJson\<close> returns an error) and the validation fails when the member \<open>id\<close>
  is absent, null or not a string, so that the pointer \<open>machineId\<close> is null. In both
  cases the packet is discarded: the pass of \<open>loop()\<close> that meets it while connected
  returns, leaves the gateway as a pass without packet does apart from the one event of
  the discard, which is no publish call, and the pass after it publishes a well-formed
  packet. The bytes the reader rejects include: a blank payload; a payload whose first
  character cannot begin a value; an object cut before any closing brace, hence every
  proper prefix of the lathe payload. The reader stops at the end of the first value, so
  it does not reject every payload that is not JSON text. The test on the identity is
  \<open>!machineId\<close> only: an identity that is the empty string is not rejected, its packet
  goes to publish like any other.
\<close>

theorem bad_packet_discarded:
  "(deserializeJson (payload bad) = Inl e \<longrightarrow>
      handleLoRaPacket to_float deserializeJson env bad s = emit (JsonParseError e) s) \<and>
   (deserializeJson (payload bad) = Inr d \<and> as_cstr (getMember d ''id'') = None \<longrightarrow>
      handleLoRaPacket to_float deserializeJson env bad s = emit MissingMachineId s) \<and>
   ((deserializeJson (payload bad) = Inl e \<or>
     deserializeJson (payload bad) = Inr d \<and> as_cstr (getMember d ''id'') = None) \<and>
    mqtt_connected s \<and> radio env = Some bad \<and> payload bad \<noteq> [] \<longrightarrow>
      (\<exists>s0 s1 ev.
         loop to_float deserializeJson connect (env\<lparr>radio := None\<rparr>) s = Some s0 \<and>
         loop to_float deserializeJson connect env s = Some s1 \<and>
         s1 = emit ev s0 \<and>
         ev = (case deserializeJson (payload bad) of
                 Inl x \<Rightarrow> JsonParseError x | Inr y \<Rightarrow> MissingMachineId) \<and>
         \<not> is_publish_call ev \<and>
         new_events s s1 = [ev])) \<and>
   ((deserializeJson (payload bad) = Inl e \<or>
     deserializeJson (payload bad) = Inr d \<and> as_cstr (getMember d ''id'') = None) \<and>
    mqtt_connected s \<and> \<not> link_lost env \<and> radio env = Some bad \<and> payload bad \<noteq> [] \<and>
    radio env' = Some good \<and> payload good \<noteq> [] \<and>
    deserializeJson (payload good) = Inr doc \<and> as_cstr (getMember doc ''id'') = Some mid \<longrightarrow>
      (\<exists>s1 s2 c.
         loop to_float deserializeJson connect env s = Some s1 \<and>
         loop to_float deserializeJson connect env' s1 = Some s2 \<and>
         machine_id c = mid \<and>
         new_events s1 s2 =
           [(if \<not> link_lost env' \<and> write_ok env' then Published else PublishFailed)
              (snprintf_ss 64 MQTT_TOPIC_PREFIX mid) c])) \<and>
   (skipSpaces b = [] \<longrightarrow> readJson b = Inl EmptyInput) \<and>
   (skipSpaces b = c0 # cs \<and> c0 \<notin> set ''{[\"tfn'' \<and> \<not> canBeInNumber c0 \<longrightarrow>
      readJson b = Inl InvalidInput) \<and>
   (skipSpaces b = CHR ''{'' # cs \<and> CHR ''}'' \<notin> set b \<longrightarrow> (\<exists>x. readJson b = Inl x)) \<and>
   (\<forall>n < length lathe_bytes. \<exists>x. readJson (take n lathe_bytes) = Inl x)"
proof -
  let ?rej = "deserializeJson (payload bad) = Inl e \<or>
     deserializeJson (payload bad) = Inr d \<and> as_cstr (getMember d ''id'') = None"
  let ?ev = "case deserializeJson (payload bad) of
                 Inl x \<Rightarrow> JsonParseError x | Inr y \<Rightarrow> MissingMachineId"
  have c1: "deserializeJson (payload bad) = Inl e \<longrightarrow>
      handleLoRaPacket to_float deserializeJson env bad s = emit (JsonParseError e) s"
    by (simp add: handle_parse_error)
  have c2: "deserializeJson (payload bad) = Inr d \<and> as_cstr (getMember d ''id'') = None \<longrightarrow>
      handleLoRaPacket to_float deserializeJson env bad s = emit MissingMachineId s"
    by (simp add: handle_null_id)
  have c3: "?rej \<and> mqtt_connected s \<and> radio env = Some bad \<and> payload bad \<noteq> [] \<longrightarrow>
      (\<exists>s0 s1 ev.
         loop to_float deserializeJson connect (env\<lparr>radio := None\<rparr>) s = Some s0 \<and>
         loop to_float deserializeJson connect env s = Some s1 \<and>
         s1 = emit ev s0 \<and> ev = ?ev \<and> \<not> is_publish_call ev \<and> new_events s s1 = [ev])"
  proof
    assume a: "?rej \<and> mqtt_connected s \<and> radio env = Some bad \<and> payload bad \<noteq> []"
    then have rej: ?rej and conn: "mqtt_connected s" and rad: "radio env = Some bad"
      and ne: "payload bad \<noteq> []" by simp_all
    let ?s0 = "(mqtt_loop env s)\<lparr>delayed_ms := delayed_ms s + 10\<rparr>"
    have 0: "loop to_float deserializeJson connect (env\<lparr>radio := None\<rparr>) s = Some ?s0"
      by (rule loop_without_packet [where s = s, OF conn])
    have 1: "loop to_float deserializeJson connect env s = Some (emit ?ev ?s0)"
      by (rule loop_discards [where deserializeJson = deserializeJson and bad = bad
            and e = e and d = d and s = s and env = env, OF rej conn rad ne])
    have 2: "\<not> is_publish_call ?ev"
      by (rule discard_not_publish [where deserializeJson = deserializeJson and bad = bad
            and e = e and d = d, OF rej])
    have 3: "new_events s (emit ?ev ?s0) = [?ev]" by (simp add: new_events_def)
    from 0 1 2 3 show "\<exists>s0 s1 ev.
         loop to_float deserializeJson connect (env\<lparr>radio := None\<rparr>) s = Some s0 \<and>
         loop to_float deserializeJson connect env s = Some s1 \<and>
         s1 = emit ev s0 \<and> ev = ?ev \<and> \<not> is_publish_call ev \<and> new_events s s1 = [ev]"
      by blast
  qed
  have c4: "?rej \<and>
    mqtt_connected s \<and> \<not> link_lost env \<and> radio env = Some bad \<and> payload bad \<noteq> [] \<and>
    radio env' = Some good \<and> payload good \<noteq> [] \<and>
    deserializeJson (payload good) = Inr doc \<and> as_cstr (getMember doc ''id'') = Some mid \<longrightarrow>
      (\<exists>s1 s2 c.
         loop to_float deserializeJson connect env s = Some s1 \<and>
         loop to_float deserializeJson connect env' s1 = Some s2 \<and>
         machine_id c = mid \<and>
         new_events s1 s2 =
           [(if \<not> link_lost env' \<and> write_ok env' then Published else PublishFailed)
              (snprintf_ss 64 MQTT_TOPIC_PREFIX mid) c])"
  proof
    assume a: "?rej \<and>
      mqtt_connected s \<and> \<not> link_lost env \<and> radio env = Some bad \<and> payload bad \<noteq> [] \<and>
      radio env' = Some good \<and> payload good \<noteq> [] \<and>
      deserializeJson (payload good) = Inr doc \<and> as_cstr (getMember doc ''id'') = Some mid"
    then have rej: ?rej and conn: "mqtt_connected s" and held: "\<not> link_lost env"
      and rad: "radio env = Some bad" and ne: "payload bad \<noteq> []"
      and rad': "radio env' = Some good" and ne': "payload good \<noteq> []"
      and p: "deserializeJson (payload good) = Inr doc"
      and i: "as_cstr (getMember doc ''id'') = Some mid" by simp_all
    let ?s1 = "emit ?ev ((mqtt_loop env s)\<lparr>delayed_ms := delayed_ms s + 10\<rparr>)"
    have 1: "loop to_float deserializeJson connect env s = Some ?s1"
      by (rule loop_discards [where deserializeJson = deserializeJson and bad = bad
            and e = e and d = d and s = s and env = env, OF rej conn rad ne])
    from conn held have conn1: "mqtt_connected ?s1" by simp
    from loop_publishes [where to_float = to_float and deserializeJson = deserializeJson
        and connect = connect and env = env' and s = ?s1 and good = good and doc = doc
        and mid = mid, OF conn1 rad' ne' p i]
    obtain c where m: "machine_id c = mid"
      and 2: "loop to_float deserializeJson connect env' ?s1 =
               Some (emit ((if \<not> link_lost env' \<and> write_ok env' then Published else PublishFailed)
                             (snprintf_ss 64 MQTT_TOPIC_PREFIX mid) c)
                       ((mqtt_loop env' ?s1)\<lparr>delayed_ms := delayed_ms ?s1 + 10\<rparr>))"
      by blast
    have 3: "new_events ?s1
               (emit ((if \<not> link_lost env' \<and> write_ok env' then Published else PublishFailed)
                             (snprintf_ss 64 MQTT_TOPIC_PREFIX mid) c)
                       ((mqtt_loop env' ?s1)\<lparr>delayed_ms := delayed_ms ?s1 + 10\<rparr>)) =
             [(if \<not> link_lost env' \<and> write_ok env' then Published else PublishFailed)
                (snprintf_ss 64 MQTT_TOPIC_PREFIX mid) c]"
      by (simp add: new_events_def)
    from 1 2 3 m show "\<exists>s1 s2 c.
         loop to_float deserializeJson connect env s = Some s1 \<and>
         loop to_float deserializeJson connect env' s1 = Some s2 \<and>
         machine_id c = mid \<and>
         new_events s1 s2 =
           [(if \<not> link_lost env' \<and> write_ok env' then Published else PublishFailed)
              (snprintf_ss 64 MQTT_TOPIC_PREFIX mid) c]"
      by blast
  qed
  have c5: "skipSpaces b = [] \<longrightarrow> readJson b = Inl EmptyInput"
    by (simp add: blank_rejected)
  have c6: "skipSpaces b = c0 # cs \<and> c0 \<notin> set ''{[\"tfn'' \<and> \<not> canBeInNumber c0 \<longrightarrow>
      readJson b = Inl InvalidInput"
    using bad_start_rejected [of b c0 cs] by blast
  have c7: "skipSpaces b = CHR ''{'' # cs \<and> CHR ''}'' \<notin> set b \<longrightarrow> (\<exists>x. readJson b = Inl x)"
    using unclosed_object_rejected [of b cs] by blast
  have c8: "\<forall>n < length lathe_bytes. \<exists>x. readJson (take n lathe_bytes) = Inl x"
    using truncation_rejected by blast
  from c1 c2 c3 c4 c5 c6 c7 c8 show ?thesis by (intro conjI)
qed

theorem bad_packet_discarded_witness:
  "handleLoRaPacket binary32 readJson (packet_env truncated_bytes False)
       (test_packet truncated_bytes) gateway_connected =
     emit (JsonParseError IncompleteInput) gateway_connected \<and>
   handleLoRaPacket binary32 readJson (packet_env no_id_bytes False)
       (test_packet no_id_bytes) gateway_connected =
     emit MissingMachineId gateway_connected \<and>
   loop binary32 readJson never_connects (packet_env no_id_bytes False) gateway_connected =
     Some \<lparr>mqtt_connected = True, connect_calls = 1, delayed_ms = 1010,
           events = [MissingMachineId]\<rparr> \<and>
   (\<exists>s1 s2 c.
      loop binary32 readJson never_connects (packet_env truncated_bytes False)
        gateway_connected = Some s1 \<and>
      loop binary32 readJson never_connects (packet_env lathe_bytes False) s1 = Some s2 \<and>
      machine_id c = ''lathe_01'' \<and>
      new_events s1 s2 = [Published ''factory/lathe_01'' c]) \<and>
   readJson [CHR '' '', CHR 0x0A] = Inl EmptyInput \<and>
   readJson ''id=lathe_01'' = Inl InvalidInput \<and>
   (\<exists>x. readJson ''{\"id\":\"lathe_01\"'' = Inl x) \<and>
   (\<exists>x. readJson (take 23 lathe_bytes) = Inl x)"
proof -
  let ?d = "JObject [(''t'', JFloat (673 / 10)), (''v'', JFloat (3 / 250)), (''r'', JInt 3200)]"
  let ?doc = "JObject [(''id'', JString ''lathe_01''), (''t'', JFloat (673 / 10)),
                       (''v'', JFloat (3 / 250)), (''r'', JInt 3200)]"
  have t: "readJson (payload (test_packet truncated_bytes)) = Inl IncompleteInput"
    by (simp add: readJson_truncated)
  have n: "readJson (payload (test_packet no_id_bytes)) = Inr ?d"
    by (simp add: readJson_no_id)
  have g: "readJson (payload (test_packet lathe_bytes)) = Inr ?doc"
    by (simp add: readJson_lathe)
  have i: "as_cstr (getMember ?d ''id'') = None" by simp
  have j: "as_cstr (getMember ?doc ''id'') = Some ''lathe_01''" by simp
  have k: "snprintf_ss 64 MQTT_TOPIC_PREFIX ''lathe_01'' = ''factory/lathe_01''"
    by (simp add: topic_short)
  have conn: "mqtt_connected gateway_connected" by (simp add: gateway_connected_def)
  have tne: "truncated_bytes \<noteq> []" by (simp add: truncated_bytes_def)
  have nne: "no_id_bytes \<noteq> []" by (simp add: no_id_bytes_def)
  note trunc = bad_packet_discarded [where deserializeJson = readJson and to_float = binary32
      and connect = never_connects
      and bad = "test_packet truncated_bytes" and e = IncompleteInput
      and good = "test_packet lathe_bytes" and doc = ?doc and mid = "''lathe_01''"
      and env = "packet_env truncated_bytes False" and env' = "packet_env lathe_bytes False"
      and s = gateway_connected and b = "[CHR '' '', CHR 0x0A]"]
  note noid = bad_packet_discarded [where deserializeJson = readJson and to_float = binary32
      and connect = never_connects
      and bad = "test_packet no_id_bytes" and d = ?d
      and env = "packet_env no_id_bytes False"
      and s = gateway_connected and b = "''id=lathe_01''" and ?c0.0 = "CHR ''i''"
      and cs = "''d=lathe_01''"]
  note unclosed = bad_packet_discarded [where deserializeJson = readJson and to_float = binary32
      and b = "''{\"id\":\"lathe_01\"''" and cs = "''\"id\":\"lathe_01\"''"]
  have 1: "handleLoRaPacket binary32 readJson (packet_env truncated_bytes False)
       (test_packet truncated_bytes) gateway_connected =
     emit (JsonParseError IncompleteInput) gateway_connected"
    using trunc [THEN conjunct1] t by simp
  have 2: "handleLoRaPacket binary32 readJson (packet_env no_id_bytes False)
       (test_packet no_id_bytes) gateway_connected = emit MissingMachineId gateway_connected"
    using noid [THEN conjunct2, THEN conjunct1] n i by simp
  have s0: "loop binary32 readJson never_connects
              ((packet_env no_id_bytes False)\<lparr>radio := None\<rparr>) gateway_connected =
            Some \<lparr>mqtt_connected = True, connect_calls = 1, delayed_ms = 1010, events = []\<rparr>"
    by (simp add: loop_def Let_def gateway_connected_def packet_env_def mqtt_loop_def)
  have 3: "loop binary32 readJson never_connects (packet_env no_id_bytes False)
             gateway_connected =
     Some \<lparr>mqtt_connected = True, connect_calls = 1, delayed_ms = 1010,
           events = [MissingMachineId]\<rparr>"
    using noid [THEN conjunct2, THEN conjunct2, THEN conjunct1] n i conn nne s0
    by (auto simp: emit_def)
  have 4: "\<exists>s1 s2 c.
      loop binary32 readJson never_connects (packet_env truncated_bytes False)
        gateway_connected = Some s1 \<and>
      loop binary32 readJson never_connects (packet_env lathe_bytes False) s1 = Some s2 \<and>
      machine_id c = ''lathe_01'' \<and>
      new_events s1 s2 = [Published ''factory/lathe_01'' c]"
    using trunc [THEN conjunct2, THEN conjunct2, THEN conjunct2, THEN conjunct1] t g j k conn tne
    by simp
  have 5: "readJson [CHR '' '', CHR 0x0A] = Inl EmptyInput"
    using trunc [THEN conjunct2, THEN conjunct2, THEN conjunct2, THEN conjunct2, THEN conjunct1]
    by (simp add: skipSpaces_def isspace_def)
  have 6: "readJson ''id=lathe_01'' = Inl InvalidInput"
    using noid [THEN conjunct2, THEN conjunct2, THEN conjunct2, THEN conjunct2, THEN conjunct2,
        THEN conjunct1]
    by (simp add: skipSpaces_def isspace_def canBeInNumber_def isdigit_def)
  have 7: "\<exists>x. readJson ''{\"id\":\"lathe_01\"'' = Inl x"
    using unclosed [THEN conjunct2, THEN conjunct2, THEN conjunct2, THEN conjunct2, THEN conjunct2,
        THEN conjunct2, THEN conjunct1]
    by (simp add: skipSpaces_def isspace_def)
  have 8: "\<exists>x. readJson (take 23 lathe_bytes) = Inl x"
    using unclosed [THEN conjunct2, THEN conjunct2, THEN conjunct2, THEN conjunct2, THEN conjunct2,
        THEN conjunct2, THEN conjunct2, rule_format, of 23]
    by (simp add: lathe_length)
  from 1 2 3 4 5 6 7 8 show ?thesis by (intro conjI)
qed

text \<open>An identity that is the empty string is not discarded: the packet is published, with
  machine_id \<open>""\<close>, on topic \<open>factory/\<close>.\<close>

theorem empty_identity_is_published:
  "handleLoRaPacket binary32 readJson (packet_env empty_id_bytes False)
       (test_packet empty_id_bytes) gateway_connected =
     emit (Published ''factory/''
             \<lparr>machine_id = [], timestamp = 12345, temperature = Finite (4410573 / 65536),
              vibration = Finite (6442451 / 536870912), rpm = 3200, rssi = - 45, snr = Finite (19 / 2)\<rparr>) gateway_connected"
  by (rule handle_empty_id) (simp add: gateway_connected_def)

section \<open>The gateway: reconnecting and receiving\<close>

text \<open>
  Claim C6, as the code has it. \<open>reconnectMQTT\<close> runs inside \<open>loop()\<close>, before the radio
  is looked at, so it blocks reception. A pass that starts without connection handles the
  waiting packet only after a connect call has succeeded: after \<open>n\<close> failed calls, each
  followed by five seconds of delay, the pass has \<open>n + 1\<close> connect events before the
  event of the packet and has spent \<open>5000 n + 10\<close> milliseconds in \<open>delay\<close>. While every
  connect call fails the pass never returns, and no packet is handled.
\<close>

theorem reconnect_blocks_reception:
  assumes "\<not> mqtt_connected s"
  shows "((\<forall>k<n. \<not> connect (connect_calls s + k)) \<and> connect (connect_calls s + n) \<longrightarrow>
            (\<exists>s' evs. loop to_float deserializeJson connect env s = Some s' \<and>
                 new_events s s' = replicate n (MqttConnect False) @ [MqttConnect True] @ evs \<and>
                 length evs \<le> 1 \<and>
                 connect_calls s' = connect_calls s + n + 1 \<and>
                 delayed_ms s' = delayed_ms s + 5000 * n + 10)) \<and>
         ((\<forall>k. \<not> connect (connect_calls s + k)) \<longrightarrow>
            loop to_float deserializeJson connect env s = None)"
proof (intro conjI impI)
  assume a: "(\<forall>k<n. \<not> connect (connect_calls s + k)) \<and> connect (connect_calls s + n)"
  let ?s1 = "s\<lparr>mqtt_connected := True,
                 connect_calls := connect_calls s + n + 1,
                 delayed_ms := delayed_ms s + 5000 * n,
                 events := events s @ replicate n (MqttConnect False) @ [MqttConnect True]\<rparr>"
  from a have r: "reconnectMQTT connect s = Some ?s1"
    using reconnectMQTT_after [OF assms, of n connect] by blast
  show "\<exists>s' evs. loop to_float deserializeJson connect env s = Some s' \<and>
                 new_events s s' = replicate n (MqttConnect False) @ [MqttConnect True] @ evs \<and>
                 length evs \<le> 1 \<and>
                 connect_calls s' = connect_calls s + n + 1 \<and>
                 delayed_ms s' = delayed_ms s + 5000 * n + 10"
  proof (cases "parsePacket env = 0")
    case True
    then have "loop to_float deserializeJson connect env s =
        Some ((mqtt_loop env ?s1)\<lparr>delayed_ms := delayed_ms ?s1 + 10\<rparr>)"
      using assms r by (simp add: loop_def Let_def parsePacket_def split: option.splits)
    then show ?thesis
      by (intro exI [where x = "(mqtt_loop env ?s1)\<lparr>delayed_ms := delayed_ms ?s1 + 10\<rparr>"]
          exI [where x = "[]"]) (simp add: new_events_def)
  next
    case False
    then obtain pkt where pkt: "radio env = Some pkt" "payload pkt \<noteq> []"
      by (auto simp: parsePacket_def split: option.splits)
    from handle_one_event [of to_float deserializeJson env pkt "mqtt_loop env ?s1"]
    obtain ev where ev: "handleLoRaPacket to_float deserializeJson env pkt (mqtt_loop env ?s1) =
        emit ev (mqtt_loop env ?s1)" by blast
    have "(if \<not> mqtt_connected s then reconnectMQTT connect s else Some s) = Some ?s1"
      using assms r by simp
    from loop_after_reconnect [OF this pkt, of to_float deserializeJson]
    have "loop to_float deserializeJson connect env s =
        Some ((emit ev (mqtt_loop env ?s1))\<lparr>delayed_ms := delayed_ms ?s1 + 10\<rparr>)"
      using ev by simp
    then show ?thesis
      by (intro exI [where x = "(emit ev (mqtt_loop env ?s1))\<lparr>delayed_ms := delayed_ms ?s1 + 10\<rparr>"]
          exI [where x = "[ev]"]) (simp add: new_events_def)
  qed
next
  assume "\<forall>k. \<not> connect (connect_calls s + k)"
  with assms show "loop to_float deserializeJson connect env s = None"
    by (rule loop_blocked)
qed

theorem reconnect_blocks_reception_witness:
  "\<not> mqtt_connected gateway_boot \<and>
   \<not> connects_third 0 \<and> \<not> connects_third 1 \<and> connects_third 2 \<and>
   (\<exists>s' evs. loop binary32 readJson connects_third (packet_env lathe_bytes False) gateway_boot =
              Some s' \<and>
            new_events gateway_boot s' = [MqttConnect False, MqttConnect False, MqttConnect True] @ evs \<and>
            length evs \<le> 1 \<and> connect_calls s' = 3 \<and> delayed_ms s' = 11010) \<and>
   (\<forall>k. \<not> never_connects k) \<and>
   loop binary32 readJson never_connects (packet_env no_id_bytes False) gateway_boot = None"
proof -
  have b: "\<not> mqtt_connected gateway_boot" by simp
  have t: "(\<forall>k<2. \<not> connects_third (connect_calls gateway_boot + k)) \<and>
           connects_third (connect_calls gateway_boot + 2)"
    by (simp add: connects_third_def)
  have n: "\<forall>k. \<not> never_connects (connect_calls gateway_boot + k)"
    by (simp add: never_connects_def)
  have rep: "replicate 2 (MqttConnect False :: float32 gw_event) = [MqttConnect False, MqttConnect False]"
    by (simp add: numeral_2_eq_2)
  note first = reconnect_blocks_reception [OF b, where n = 2 and connect = connects_third
      and to_float = binary32 and deserializeJson = readJson
      and env = "packet_env lathe_bytes False", THEN conjunct1, THEN mp, OF t]
  note second = reconnect_blocks_reception [OF b, where connect = never_connects
      and to_float = binary32 and deserializeJson = readJson
      and env = "packet_env no_id_bytes False", THEN conjunct2, THEN mp, OF n]
  from first have "\<exists>s' evs.
      loop binary32 readJson connects_third (packet_env lathe_bytes False) gateway_boot =
              Some s' \<and>
            new_events gateway_boot s' = [MqttConnect False, MqttConnect False, MqttConnect True] @ evs \<and>
            length evs \<le> 1 \<and> connect_calls s' = 3 \<and> delayed_ms s' = 11010"
    by (simp add: rep numeral_3_eq_3)
  with second b show ?thesis
    by (simp add: connects_third_def never_connects_def)
qed

text \<open>A packet is waiting while the broker cannot be reached: the pass never gets to it.\<close>

theorem reception_blocked_while_reconnecting:
  "loop binary32 readJson never_connects (packet_env lathe_bytes False) gateway_boot = None"
  by (rule loop_blocked) (simp_all add: never_connects_def)

end
